theory Spec2Isabelle
  imports Main "HOL-Library.Sublist" "HOL-Library.Monad_Syntax"
begin

section \<open>Python strings\<close>

text \<open>
  A Python \<open>str\<close> is modelled as a \<open>string\<close>, a list of characters, each character
  being a code point below 256; text with a code point from 256 on is outside the model.
  The four string methods that \<open>main.py\<close> calls are written
  out below: \<open>str.split\<close> with a one-character separator, \<open>str.join\<close>, \<open>str.strip\<close>
  with no argument and \<open>str.lower\<close>.
\<close>

text \<open>\<open>s.split(sep)\<close> for a separator of one character: never empty, \<open>''''.split(sep) = ['''']\<close>.\<close>

fun py_split :: "char \<Rightarrow> string \<Rightarrow> string list" where
  "py_split sep [] = [[]]"
| "py_split sep (c # cs) =
     (if c = sep then [] # py_split sep cs
      else (case py_split sep cs of
              [] \<Rightarrow> [[c]]
            | p # ps \<Rightarrow> (c # p) # ps))"

text \<open>\<open>sep.join(xs)\<close>.\<close>

fun py_join :: "string \<Rightarrow> string list \<Rightarrow> string" where
  "py_join sep [] = []"
| "py_join sep [x] = x"
| "py_join sep (x # y # ys) = x @ sep @ py_join sep (y # ys)"

text \<open>
  The characters \<open>str.isspace\<close> accepts below 256: tab, line feed, vertical tab, form
  feed, carriage return, the four separators 0x1C to 0x1F, the space, the next-line
  control 0x85 and the no-break space 0xA0.
\<close>

definition whitespace :: "char list" where
  "whitespace = [CHR 0x09, CHR 0x0A, CHR 0x0B, CHR 0x0C, CHR 0x0D,
                 CHR 0x1C, CHR 0x1D, CHR 0x1E, CHR 0x1F, CHR 0x20,
                 CHR 0x85, CHR 0xA0]"

definition is_space :: "char \<Rightarrow> bool" where
  "is_space c = (c \<in> set whitespace)"

text \<open>\<open>s.strip()\<close>: drop the whitespace at both ends.\<close>

definition py_strip :: "string \<Rightarrow> string" where
  "py_strip s = rev (dropWhile is_space (rev (dropWhile is_space s)))"

text \<open>
  \<open>s.lower()\<close> on the letters A to Z. The code lowers a text only to look for \<open>accept\<close>
  in it (line 149), and no character other than A, C, E, P and T lowers to a letter of that
  word, so the other characters are left as they are.
\<close>

definition lower_char :: "char \<Rightarrow> char" where
  "lower_char c =
     (case map_of (zip ''ABCDEFGHIJKLMNOPQRSTUVWXYZ'' ''abcdefghijklmnopqrstuvwxyz'') c of
        None \<Rightarrow> c
      | Some l \<Rightarrow> l)"

definition py_lower :: "string \<Rightarrow> string" where
  "py_lower s = map lower_char s"

text \<open>\<open>sub in s\<close> for two strings: \<open>sub\<close> occurs in \<open>s\<close> as a contiguous run.\<close>

fun py_in :: "string \<Rightarrow> string \<Rightarrow> bool" where
  "py_in sub [] = (sub = [])"
| "py_in sub (c # cs) = (prefix sub (c # cs) \<or> py_in sub cs)"

definition newline :: char where
  "newline = CHR 0x0A"


section \<open>Ticket details and the prompt\<close>

text \<open>
  The dictionary that \<open>get_ticket_details\<close> returns and that \<open>generate_test_cases\<close>
  reads. The tracker path fills all ten keys; the two manual paths (the form of the third
  tab and the free-text batch of the fourth) build a dictionary without \<open>status\<close>,
  \<open>created\<close> and \<open>updated\<close>, which are therefore optional here. The prompt reads the
  other seven.

  The program looks at a value of this dictionary in one way only, by formatting it into a
  text (lines 181 to 187 and 413 to 422), the components apart, which it joins. Each field
  holds that text: a string is itself, and \<open>None\<close>, which only the tracker path can put
  there, is the text \<open>None\<close>.
\<close>

record ticket_details =
  key :: string
  summary :: string
  description :: string
  status :: "string option"
  issue_type :: string
  priority :: string
  components :: "string list"
  created :: "string option"
  updated :: "string option"
  acceptance_criteria :: string

text \<open>
  Line 176: \<open>", ".join(ticket_details['components']) if ticket_details['components']
  else "No components"\<close>. A list is true when it is not empty.
\<close>

definition components_str :: "ticket_details \<Rightarrow> string" where
  "components_str td =
     (if components td \<noteq> [] then py_join '', '' (components td) else ''No components'')"

text \<open>
  Lines 178 to 206: the f-string, one element per line of the literal. The literal opens
  with a line break and closes with four blanks after the last one.
\<close>

definition ticket_lines :: "ticket_details \<Rightarrow> string list" where
  "ticket_lines td =
    [''    TICKET KEY: '' @ key td,
     ''    SUMMARY: '' @ summary td,
     ''    DESCRIPTION: '' @ description td,
     ''    ISSUE TYPE: '' @ issue_type td,
     ''    PRIORITY: '' @ priority td,
     ''    COMPONENTS: '' @ components_str td,
     ''    ACCEPTANCE CRITERIA: '' @ acceptance_criteria td]"

definition instruction_lines :: "string list" where
  "instruction_lines =
    ['''',
     ''    For each test case, provide:'',
     ''    1. Test case ID (TC-XX format)'',
     ''    2. Test objective'',
     ''    3. Preconditions'',
     ''    4. Test steps (numbered)'',
     ''    5. Expected results'',
     ''    6. Priority (High/Medium/Low)'',
     '''',
     ''    Cover the following:'',
     ''    - Positive test cases (valid inputs/scenarios)'',
     ''    - Negative test cases (invalid inputs/error handling)'',
     ''    - Edge cases and boundary values'',
     ''    - Performance considerations (if applicable)'',
     ''    - Security aspects (if applicable)'',
     ''    - Integration points with other components'',
     '''',
     ''    Format the test cases clearly with proper categorization using markdown.'',
     ''    '']"

definition prompt_lines :: "ticket_details \<Rightarrow> string list" where
  "prompt_lines td =
    ['''',
     ''    You are an expert QA engineer. Based on the following Jira ticket details, generate a comprehensive set of test cases.'',
     ''''] @ ticket_lines td @ instruction_lines"

definition prompt :: "ticket_details \<Rightarrow> string" where
  "prompt td = py_join [newline] (prompt_lines td)"

definition system_content :: string where
  "system_content =
     ''You are a QA expert specialized in creating comprehensive test cases from Jira tickets.''"


section \<open>Raw tracker records\<close>

text \<open>
  The object \<open>jira.issue(issue_key)\<close> returns, restricted to what \<open>get_ticket_details\<close>
  reads. Python tells an attribute that does not exist (\<open>hasattr\<close> is false, reading it
  raises \<open>AttributeError\<close>) from one that exists and holds \<open>None\<close>; the code treats the
  two differently, so the model keeps them apart.
\<close>

datatype 'a attr = Missing | Null | Val 'a

text \<open>A custom field holds a string or a value of another type (number, list, object).\<close>

datatype pyval = PyStr string | PyOther

text \<open>
  The objects the tracker sends for a status, an issue type, a priority or a component are
  read only through \<open>.name\<close>: such an object either has this attribute, holding a string,
  or does not have it.
\<close>

datatype named = Unnamed | Named string

text \<open>
  Every attribute may be missing or hold \<open>None\<close>. \<open>issue.key\<close>, \<open>summary\<close>,
  \<open>description\<close>, \<open>created\<close> and \<open>updated\<close> otherwise hold a string, \<open>status\<close>,
  \<open>issuetype\<close> and \<open>priority\<close> an object, \<open>components\<close> a list of objects.
\<close>

record issue =
  issue_key_attr :: "string attr"
  fields_summary :: "string attr"
  fields_description :: "string attr"
  fields_status :: "named attr"
  fields_issuetype :: "named attr"
  fields_priority :: "named attr"
  fields_components :: "named list attr"
  fields_created :: "string attr"
  fields_updated :: "string attr"
  fields_custom :: "string \<Rightarrow> pyval attr"

text \<open>
  Lines 126, 127, 134 and 135: \<open>issue.key\<close>, \<open>issue.fields.summary\<close>,
  \<open>issue.fields.created\<close>, \<open>issue.fields.updated\<close>. Reading a missing attribute raises
  (\<open>None\<close> here); the value read goes into the dictionary as it is, and the record holds
  it as the text it is formatted to, so a \<open>None\<close> read here is the text \<open>None\<close>.
\<close>

definition read_value :: "string attr \<Rightarrow> string option" where
  "read_value a =
     (case a of
        Missing \<Rightarrow> None
      | Null \<Rightarrow> Some ''None''
      | Val s \<Rightarrow> Some s)"

text \<open>
  Line 128: \<open>issue.fields.description or "No description provided"\<close>. Reading a missing
  attribute raises (\<open>None\<close> here); \<open>None\<close> and the empty string are false.
\<close>

definition description_or_default :: "string attr \<Rightarrow> string option" where
  "description_or_default a =
     (case a of
        Missing \<Rightarrow> None
      | Null \<Rightarrow> Some ''No description provided''
      | Val d \<Rightarrow> Some (if d \<noteq> [] then d else ''No description provided''))"

text \<open>\<open>c.name\<close> for an object \<open>c\<close>: raises \<open>AttributeError\<close> when it has no such attribute.\<close>

definition object_name :: "named \<Rightarrow> string option" where
  "object_name c = (case c of Unnamed \<Rightarrow> None | Named n \<Rightarrow> Some n)"

text \<open>
  Lines 129 and 130: \<open>issue.fields.status.name\<close>, \<open>issue.fields.issuetype.name\<close>. A
  missing attribute, \<open>None.name\<close> and an object without \<open>name\<close> all raise
  \<open>AttributeError\<close>.
\<close>

definition attr_name :: "named attr \<Rightarrow> string option" where
  "attr_name a = (case a of Val c \<Rightarrow> object_name c | _ \<Rightarrow> None)"

text \<open>
  Lines 131 and 132: \<open>issue.fields.priority.name if hasattr(issue.fields, 'priority') and
  issue.fields.priority else "Not set"\<close>. An object is true, so its \<open>name\<close> is read.
\<close>

definition priority_or_default :: "named attr \<Rightarrow> string option" where
  "priority_or_default a =
     (case a of
        Missing \<Rightarrow> Some ''Not set''
      | Null \<Rightarrow> Some ''Not set''
      | Val c \<Rightarrow> object_name c)"

text \<open>
  Line 133: \<open>[c.name for c in issue.fields.components] if hasattr(issue.fields,
  'components') else []\<close>. Iterating over \<open>None\<close> raises \<open>TypeError\<close>.
\<close>

definition component_names :: "named list attr \<Rightarrow> string list option" where
  "component_names a =
     (case a of
        Missing \<Rightarrow> Some []
      | Null \<Rightarrow> None
      | Val cs \<Rightarrow> those (map object_name cs))"

definition custom_field_names :: "string list" where
  "custom_field_names =
     [''customfield_10000'', ''customfield_10001'', ''customfield_10002'',
      ''customfield_10003'', ''customfield_10004'', ''customfield_10005'']"

text \<open>
  Lines 146 to 153, the loop over the field names with its \<open>break\<close>; \<open>current\<close> is
  the value \<open>acceptance_criteria\<close> holds when the loop starts.
  \<open>getattr(issue.fields, field_name, None)\<close> gives \<open>None\<close> for a missing attribute; the
  test \<open>value and (isinstance(value, str) and 'accept' in value.lower())\<close> is false for
  \<open>None\<close>, for the empty string and for every value that is not a string.
\<close>

fun probe_custom_fields :: "(string \<Rightarrow> pyval attr) \<Rightarrow> string list \<Rightarrow> string \<Rightarrow> string" where
  "probe_custom_fields cf [] current = current"
| "probe_custom_fields cf (field_name # rest) current =
     (case cf field_name of
        Val (PyStr v) \<Rightarrow>
          (if v \<noteq> [] \<and> py_in ''accept'' (py_lower v) then v
           else probe_custom_fields cf rest current)
      | _ \<Rightarrow> probe_custom_fields cf rest current)"

text \<open>
  Lines 125 to 157, the body of the \<open>try\<close> after the fetch: \<open>None\<close> when any read raises.
\<close>

definition extract_details :: "issue \<Rightarrow> ticket_details option" where
  "extract_details i =
     do {
       k \<leftarrow> read_value (issue_key_attr i);
       s \<leftarrow> read_value (fields_summary i);
       d \<leftarrow> description_or_default (fields_description i);
       st \<leftarrow> attr_name (fields_status i);
       ty \<leftarrow> attr_name (fields_issuetype i);
       pr \<leftarrow> priority_or_default (fields_priority i);
       cs \<leftarrow> component_names (fields_components i);
       cr \<leftarrow> read_value (fields_created i);
       up \<leftarrow> read_value (fields_updated i);
       Some \<lparr>key = k, summary = s, description = d, status = Some st, issue_type = ty,
             priority = pr, components = cs,
             created = Some cr, updated = Some up,
             acceptance_criteria =
               probe_custom_fields (fields_custom i) custom_field_names
                 ''No acceptance criteria provided''\<rparr>
     }"


section \<open>The session and the two services\<close>

text \<open>A call to an outside service either raises or returns.\<close>

datatype 'a outcome = Raised | Returned 'a

text \<open>
  The messages shown with \<open>st.error\<close>, named by the line that shows them; the text of the
  exception, where the message carries one, is left out.
\<close>

datatype ui_error =
    JiraNotInstalled
  | ProvideJiraDetails
  | JiraConnectFailed
  | TicketDetailsError
  | ApiKeyRequired
  | ClientInitError
  | GenerationError
  | ProvideApiKey
  | ProvideTicketDescription

text \<open>The connection \<open>JIRA(server=jira_url, basic_auth=(jira_email, jira_api_token))\<close>.\<close>

type_synonym jira_client = "string \<times> string \<times> string"

text \<open>
  The outside world has a state \<open>'w\<close> that every network call may read and change:
  \<open>jira_connect\<close> is the constructor \<open>JIRA(...)\<close>, \<open>jira_issue\<close> is \<open>jira.issue(key)\<close>,
  \<open>openai_client\<close> tells whether \<open>openai.OpenAI(api_key=...)\<close> returns, and
  \<open>chat_create\<close> is \<open>client.chat.completions.create(model, messages)\<close> followed by
  \<open>response.choices[0].message.content\<close>, which is a string or \<open>None\<close>.
\<close>

record 'w services =
  jira_available :: bool
  jira_connect :: "'w \<Rightarrow> jira_client \<Rightarrow> unit outcome \<times> 'w"
  jira_issue :: "'w \<Rightarrow> jira_client \<Rightarrow> string \<Rightarrow> issue outcome \<times> 'w"
  openai_client :: "string \<Rightarrow> bool"
  chat_create :: "'w \<Rightarrow> string \<Rightarrow> string \<Rightarrow> string \<Rightarrow> string option outcome \<times> 'w"

text \<open>
  \<open>generated_test_cases\<close> is \<open>st.session_state.generated_test_cases\<close>; \<open>errors\<close> are the
  \<open>st.error\<close> messages in the order shown; \<open>attempts\<close> lists the arguments of the calls of
  \<open>generate_test_cases\<close> in the order made.
\<close>

record 'w session =
  generated_test_cases :: "string \<rightharpoonup> string"
  errors :: "ui_error list"
  attempts :: "ticket_details list"
  world :: 'w

definition st_error :: "ui_error \<Rightarrow> 'w session \<Rightarrow> 'w session" where
  "st_error e st = st\<lparr>errors := errors st @ [e]\<rparr>"

text \<open>Lines 83 to 97.\<close>

definition connect_to_jira ::
  "'w services \<Rightarrow> string \<Rightarrow> string \<Rightarrow> string \<Rightarrow> 'w session \<Rightarrow> jira_client option \<times> 'w session" where
  "connect_to_jira sv jira_url jira_email jira_api_token st =
     (if \<not> jira_available sv then (None, st_error JiraNotInstalled st)
      else if jira_url = [] \<or> jira_email = [] \<or> jira_api_token = []
      then (None, st_error ProvideJiraDetails st)
      else (case jira_connect sv (world st) (jira_url, jira_email, jira_api_token) of
              (Raised, w) \<Rightarrow> (None, st_error JiraConnectFailed (st\<lparr>world := w\<rparr>))
            | (Returned _, w) \<Rightarrow> (Some (jira_url, jira_email, jira_api_token), st\<lparr>world := w\<rparr>)))"

text \<open>Lines 119 to 160.\<close>

definition get_ticket_details ::
  "'w services \<Rightarrow> jira_client \<Rightarrow> string \<Rightarrow> 'w session \<Rightarrow> ticket_details option \<times> 'w session" where
  "get_ticket_details sv jira issue_key st =
     (case jira_issue sv (world st) jira issue_key of
        (Raised, w) \<Rightarrow> (None, st_error TicketDetailsError (st\<lparr>world := w\<rparr>))
      | (Returned i, w) \<Rightarrow>
          (case extract_details i of
             None \<Rightarrow> (None, st_error TicketDetailsError (st\<lparr>world := w\<rparr>))
           | Some details \<Rightarrow> (Some details, st\<lparr>world := w\<rparr>)))"

text \<open>Lines 163 to 221. The result is \<open>None\<close> or the text of the completion.\<close>

definition generate_test_cases ::
  "'w services \<Rightarrow> ticket_details \<Rightarrow> string \<Rightarrow> string \<Rightarrow> 'w session \<Rightarrow> string option \<times> 'w session" where
  "generate_test_cases sv td openai_api_key model st0 =
     (let st = st0\<lparr>attempts := attempts st0 @ [td]\<rparr> in
      if openai_api_key = [] then (None, st_error ApiKeyRequired st)
      else if \<not> openai_client sv openai_api_key then (None, st_error ClientInitError st)
      else (case chat_create sv (world st) model system_content (prompt td) of
              (Raised, w) \<Rightarrow> (None, st_error GenerationError (st\<lparr>world := w\<rparr>))
            | (Returned content, w) \<Rightarrow> (content, st\<lparr>world := w\<rparr>)))"

text \<open>
  Lines 376 to 378, 427 and 428, 507 and 508, 560 and 561: \<open>if test_cases:
  st.session_state.generated_test_cases[ticket_key] = test_cases\<close>. \<open>None\<close> and the empty
  string are false.
\<close>

definition store_test_cases :: "string \<Rightarrow> string option \<Rightarrow> 'w session \<Rightarrow> 'w session" where
  "store_test_cases ticket_key test_cases st =
     (case test_cases of
        None \<Rightarrow> st
      | Some t \<Rightarrow>
          (if t \<noteq> [] then st\<lparr>generated_test_cases := (generated_test_cases st)(ticket_key \<mapsto> t)\<rparr>
           else st))"

text \<open>
  The call of \<open>generate_test_cases\<close> followed by the conditional store, as each of the four
  places above has it.
\<close>

definition generate_and_store ::
  "'w services \<Rightarrow> string \<Rightarrow> ticket_details \<Rightarrow> string \<Rightarrow> string \<Rightarrow> 'w session \<Rightarrow> 'w session" where
  "generate_and_store sv ticket_key td openai_api_key ai_model st =
     (case generate_test_cases sv td openai_api_key ai_model st of
        (test_cases, st') \<Rightarrow> store_test_cases ticket_key test_cases st')"


section \<open>The entry points that generate\<close>

text \<open>Lines 369 to 379: the button of the manual form on the third tab.\<close>

definition tab3_manual ::
  "'w services \<Rightarrow> ticket_details \<Rightarrow> string \<Rightarrow> string \<Rightarrow> 'w session \<Rightarrow> 'w session" where
  "tab3_manual sv manual_ticket openai_api_key ai_model st =
     (if openai_api_key = [] then st_error ProvideApiKey st
      else generate_and_store sv (key manual_ticket) manual_ticket openai_api_key ai_model st)"

text \<open>
  Lines 398 to 429: the button for one tracker ticket on the third tab, shown when
  \<open>ticket_key\<close> is not empty.
\<close>

definition tab3_jira ::
  "'w services \<Rightarrow> string \<Rightarrow> string \<Rightarrow> string \<Rightarrow> string \<Rightarrow> string \<Rightarrow> string \<Rightarrow> 'w session \<Rightarrow> 'w session" where
  "tab3_jira sv jira_url jira_email jira_api_token openai_api_key ai_model ticket_key st =
     (if ticket_key = [] then st
      else if openai_api_key = [] then st_error ProvideApiKey st
      else if jira_url = [] \<or> jira_email = [] \<or> jira_api_token = []
      then st_error ProvideJiraDetails st
      else (case connect_to_jira sv jira_url jira_email jira_api_token st of
              (None, st1) \<Rightarrow> st1
            | (Some jira, st1) \<Rightarrow>
                (case get_ticket_details sv jira ticket_key st1 of
                   (None, st2) \<Rightarrow> st2
                 | (Some details, st2) \<Rightarrow>
                     generate_and_store sv ticket_key details openai_api_key ai_model st2)))"

text \<open>Lines 496 to 504: the dictionary built from the first three parts of a line.\<close>

definition manual_ticket_of :: "string list \<Rightarrow> ticket_details" where
  "manual_ticket_of parts =
     \<lparr>key = py_strip (parts ! 0), summary = py_strip (parts ! 1),
      description = py_strip (parts ! 2), status = None, issue_type = ''Story'',
      priority = ''Medium'', components = [], created = None, updated = None,
      acceptance_criteria = ''Not provided''\<rparr>"

text \<open>Lines 488 to 508: the body of the loop over the lines of the free-text batch.\<close>

definition batch_manual_line ::
  "'w services \<Rightarrow> string \<Rightarrow> string \<Rightarrow> string \<Rightarrow> 'w session \<Rightarrow> 'w session" where
  "batch_manual_line sv openai_api_key ai_model line st =
     (let parts = py_split CHR ''|'' line in
      if 3 \<le> length parts
      then generate_and_store sv (py_strip (parts ! 0)) (manual_ticket_of parts)
             openai_api_key ai_model st
      else st)"

text \<open>Line 487: the loop, one line after the other.\<close>

fun batch_manual_loop ::
  "'w services \<Rightarrow> string \<Rightarrow> string \<Rightarrow> string list \<Rightarrow> 'w session \<Rightarrow> 'w session" where
  "batch_manual_loop sv openai_api_key ai_model [] st = st"
| "batch_manual_loop sv openai_api_key ai_model (line # rest) st =
     batch_manual_loop sv openai_api_key ai_model rest
       (batch_manual_line sv openai_api_key ai_model line st)"

text \<open>Lines 477 to 513: the button of the free-text batch on the fourth tab.\<close>

definition tab4_manual ::
  "'w services \<Rightarrow> string \<Rightarrow> string \<Rightarrow> string \<Rightarrow> 'w session \<Rightarrow> 'w session" where
  "tab4_manual sv openai_api_key ai_model batch_descriptions st =
     (if openai_api_key = [] then st_error ProvideApiKey st
      else if batch_descriptions = [] then st_error ProvideTicketDescription st
      else batch_manual_loop sv openai_api_key ai_model
             (py_split newline (py_strip batch_descriptions)) st)"

text \<open>Lines 555 to 561: the body of the loop over the selected tracker tickets.\<close>

definition batch_jira_item ::
  "'w services \<Rightarrow> jira_client \<Rightarrow> string \<Rightarrow> string \<Rightarrow> string \<Rightarrow> 'w session \<Rightarrow> 'w session" where
  "batch_jira_item sv jira openai_api_key ai_model ticket_key st =
     (case get_ticket_details sv jira ticket_key st of
        (None, st1) \<Rightarrow> st1
      | (Some details, st1) \<Rightarrow>
          generate_and_store sv ticket_key details openai_api_key ai_model st1)"

text \<open>Line 554: the loop.\<close>

fun batch_jira_loop ::
  "'w services \<Rightarrow> jira_client \<Rightarrow> string \<Rightarrow> string \<Rightarrow> string list \<Rightarrow> 'w session \<Rightarrow> 'w session" where
  "batch_jira_loop sv jira openai_api_key ai_model [] st = st"
| "batch_jira_loop sv jira openai_api_key ai_model (ticket_key # rest) st =
     batch_jira_loop sv jira openai_api_key ai_model rest
       (batch_jira_item sv jira openai_api_key ai_model ticket_key st)"

text \<open>Lines 542 to 566: the button of the tracker batch on the fourth tab.\<close>

definition tab4_jira ::
  "'w services \<Rightarrow> string \<Rightarrow> string \<Rightarrow> string \<Rightarrow> string \<Rightarrow> string \<Rightarrow> string list \<Rightarrow> 'w session \<Rightarrow> 'w session" where
  "tab4_jira sv jira_url jira_email jira_api_token openai_api_key ai_model selected_tickets st =
     (if openai_api_key = [] then st_error ProvideApiKey st
      else if jira_url = [] \<or> jira_email = [] \<or> jira_api_token = []
      then st_error ProvideJiraDetails st
      else (case connect_to_jira sv jira_url jira_email jira_api_token st of
              (None, st1) \<Rightarrow> st1
            | (Some jira, st1) \<Rightarrow>
                batch_jira_loop sv jira openai_api_key ai_model selected_tickets st1))"


section \<open>Notions used in the statements\<close>

text \<open>
  A custom field matches when it holds a string in which \<open>accept\<close> occurs, letter case
  disregarded.
\<close>

definition contains_accept :: "pyval attr \<Rightarrow> bool" where
  "contains_accept a =
     (case a of
        Val (PyStr v) \<Rightarrow> sublist ''accept'' (map lower_char v)
      | _ \<Rightarrow> False)"

text \<open>
  The sessions that can arise: the dictionary starts empty (lines 30 and 31), each of the
  four buttons that generate may be pressed with any input, and between two presses
  anything but the dictionary may change.
\<close>

inductive reachable :: "'w services \<Rightarrow> 'w session \<Rightarrow> bool" for sv :: "'w services" where
  start: "generated_test_cases st = Map.empty \<Longrightarrow> reachable sv st"
| outside: "reachable sv st \<Longrightarrow> generated_test_cases st' = generated_test_cases st
     \<Longrightarrow> reachable sv st'"
| manual_form: "reachable sv st
     \<Longrightarrow> reachable sv (tab3_manual sv manual_ticket openai_api_key ai_model st)"
| single_ticket: "reachable sv st
     \<Longrightarrow> reachable sv (tab3_jira sv jira_url jira_email jira_api_token openai_api_key ai_model
           ticket_key st)"
| manual_batch: "reachable sv st
     \<Longrightarrow> reachable sv (tab4_manual sv openai_api_key ai_model batch_descriptions st)"
| tracker_batch: "reachable sv st
     \<Longrightarrow> reachable sv (tab4_jira sv jira_url jira_email jira_api_token openai_api_key ai_model
           selected_tickets st)"

definition texts_nonempty :: "'w session \<Rightarrow> bool" where
  "texts_nonempty st = (\<forall>k t. generated_test_cases st k = Some t \<longrightarrow> t \<noteq> [])"


section \<open>Sample data\<close>

text \<open>The ticket of the end-to-end scenario.\<close>

definition login_ticket :: ticket_details where
  "login_ticket =
     \<lparr>key = ''PROJ-1'', summary = ''Add login'', description = ''User logs in with email'',
      status = None, issue_type = ''Story'', priority = ''High'', components = [''Auth''],
      created = None, updated = None,
      acceptance_criteria = ''User can log in with valid credentials''\<rparr>"

text \<open>
  A tracker record whose third probed custom field is the only one that mentions acceptance.
\<close>

definition demo_issue :: issue where
  "demo_issue =
     \<lparr>issue_key_attr = Val ''PROJ-1'', fields_summary = Val ''Add login'',
      fields_description = Val ''User logs in with email'',
      fields_status = Val (Named ''Open''), fields_issuetype = Val (Named ''Story''),
      fields_priority = Val (Named ''High''), fields_components = Val [Named ''Auth''],
      fields_created = Val ''2024-01-01'', fields_updated = Val ''2024-01-02'',
      fields_custom = (\<lambda>n.
        if n = ''customfield_10000'' then Val (PyStr ''Team A'')
        else if n = ''customfield_10001'' then Val PyOther
        else if n = ''customfield_10002'' then Val (PyStr ''Acceptance: user can log in'')
        else if n = ''customfield_10003'' then Null
        else Missing)\<rparr>"

text \<open>A tracker record with no description, no priority, no components, no custom field.\<close>

definition sparse_issue :: issue where
  "sparse_issue =
     \<lparr>issue_key_attr = Val ''PROJ-2'', fields_summary = Val ''Export report'',
      fields_description = Null, fields_status = Val (Named ''To Do''),
      fields_issuetype = Val (Named ''Task''), fields_priority = Missing,
      fields_components = Missing, fields_created = Val ''2024-02-01'',
      fields_updated = Val ''2024-02-01'', fields_custom = (\<lambda>n. Missing)\<rparr>"

text \<open>
  Services whose world is the number of completion requests made so far: the tracker knows
  every key but \<open>PROJ-404\<close>, the third completion request raises and the sixth returns
  an empty text.
\<close>

definition demo_services :: "nat services" where
  "demo_services =
     \<lparr>jira_available = True,
      jira_connect = (\<lambda>w c. (Returned (), w)),
      jira_issue = (\<lambda>w c k.
        if k = ''PROJ-404'' then (Raised, w)
        else (Returned (demo_issue\<lparr>issue_key_attr := Val k\<rparr>), w)),
      openai_client = (\<lambda>k. True),
      chat_create = (\<lambda>w model sys_msg user_msg.
        if w = 2 then (Raised, Suc w)
        else if w = 5 then (Returned (Some []), Suc w)
        else (Returned (Some ''TC-01''), Suc w))\<rparr>"

definition demo_jira :: jira_client where
  "demo_jira = (''https://example.atlassian.net'', ''qa@example.com'', ''token'')"

definition demo_session :: "nat session" where
  "demo_session = \<lparr>generated_test_cases = Map.empty, errors = [], attempts = [], world = 0\<rparr>"

text \<open>What \<open>get_ticket_details\<close> makes of the sample record under the key \<open>k\<close>.\<close>

definition demo_details :: "string \<Rightarrow> ticket_details" where
  "demo_details k =
     \<lparr>key = k, summary = ''Add login'', description = ''User logs in with email'',
      status = Some ''Open'', issue_type = ''Story'', priority = ''High'',
      components = [''Auth''], created = Some ''2024-01-01'', updated = Some ''2024-01-02'',
      acceptance_criteria = ''Acceptance: user can log in''\<rparr>"

text \<open>A free-text batch of six lines, the third of which has no separator.\<close>

definition demo_batch :: string where
  "demo_batch =
     ''A-1 | Add login | User logs in\<newline>A-2 | Export | CSV file\<newline>just a note\<newline>A-3 | Search | By name\<newline>A-4 | Logout | Ends session\<newline>A-5 | Reset | Password mail''"

text \<open>A session that already holds test cases for \<open>PROJ-1\<close>.\<close>

definition stored_session :: "nat \<Rightarrow> nat session" where
  "stored_session w =
     \<lparr>generated_test_cases = [''PROJ-1'' \<mapsto> ''TC-00 earlier run''], errors = [],
      attempts = [], world = w\<rparr>"


section \<open>Facts about the string functions\<close>

lemma py_join_mem_sublist: "l \<in> set ls \<Longrightarrow> sublist l (py_join sep ls)"
proof (induction sep ls rule: py_join.induct)
  case (1 sep)
  then show ?case by simp
next
  case (2 sep x)
  then show ?case by simp
next
  case (3 sep x y ys)
  show ?case
  proof (cases "l = x")
    case True
    then show ?thesis by simp
  next
    case False
    with 3 have "sublist l (py_join sep (y # ys))" by simp
    then have "sublist l ((x @ sep) @ py_join sep (y # ys))"
      by (rule sublist_order.order.trans) (rule sublist_append_leftI)
    then show ?thesis by simp
  qed
qed

lemma py_join_append:
  "xs \<noteq> [] \<Longrightarrow> ys \<noteq> [] \<Longrightarrow> py_join sep (xs @ ys) = py_join sep xs @ sep @ py_join sep ys"
proof (induction sep xs rule: py_join.induct)
  case (1 sep)
  then show ?case by simp
next
  case (2 sep x)
  then show ?case by (cases ys) simp_all
next
  case (3 sep x y zs)
  then show ?case by simp
qed

lemma py_in_sublist: "py_in sub s \<longleftrightarrow> sublist sub s"
  by (induction s) (simp_all add: sublist_Cons_right)


section \<open>The prompt\<close>

lemma ticket_line_in_prompt:
  assumes "l \<in> set (ticket_lines td)"
  shows "sublist (drop n l) (prompt td)"
proof -
  from assms have "l \<in> set (prompt_lines td)"
    by (simp add: prompt_lines_def)
  then have "sublist l (prompt td)"
    unfolding prompt_def by (rule py_join_mem_sublist)
  with sublist_drop [of n l] show ?thesis
    by (rule sublist_order.order.trans)
qed

lemma instruction_lines_suffix:
  "suffix (py_join [newline] instruction_lines) (prompt td)"
proof -
  define hd_lines where "hd_lines = take 3 (prompt_lines td) @ ticket_lines td"
  have 1: "prompt_lines td = hd_lines @ instruction_lines"
    by (simp add: prompt_lines_def hd_lines_def)
  have 2: "hd_lines \<noteq> []"
    by (simp add: prompt_lines_def hd_lines_def)
  have 3: "instruction_lines \<noteq> []"
    by (simp add: instruction_lines_def)
  have "prompt td = (py_join [newline] hd_lines @ [newline]) @ py_join [newline] instruction_lines"
    unfolding prompt_def 1 using 2 3 by (simp add: py_join_append)
  then show ?thesis
    unfolding suffix_def by (rule exI)
qed

lemma instruction_phrase:
  assumes "n < length instruction_lines" and "sublist p (instruction_lines ! n)"
  shows "sublist p (py_join [newline] instruction_lines)"
proof -
  from assms(1) have "instruction_lines ! n \<in> set instruction_lines"
    by (rule nth_mem)
  then have "sublist (instruction_lines ! n) (py_join [newline] instruction_lines)"
    by (rule py_join_mem_sublist)
  with assms(2) show ?thesis
    by (rule sublist_order.order.trans)
qed

text \<open>
  C2. For every ticket the prompt is not empty and contains, as they are, the key, the
  summary, the description, the issue type, the priority and the acceptance criteria, as
  well as every component; the line of the components shows them joined by a comma and a
  blank, or \<open>No components\<close> when there is none. (\<open>status\<close>, \<open>created\<close> and \<open>updated\<close>,
  which only the tracker path adds to the dictionary, are not read by the prompt.)
\<close>

theorem prompt_contains_ticket:
  "prompt td \<noteq> []
   \<and> sublist (key td) (prompt td)
   \<and> sublist (summary td) (prompt td)
   \<and> sublist (description td) (prompt td)
   \<and> sublist (issue_type td) (prompt td)
   \<and> sublist (priority td) (prompt td)
   \<and> sublist (acceptance_criteria td) (prompt td)
   \<and> (\<forall>c \<in> set (components td). sublist c (prompt td))
   \<and> sublist (''COMPONENTS: '' @
         (if components td = [] then ''No components'' else py_join '', '' (components td)))
        (prompt td)"
proof -
  have nonempty: "prompt td \<noteq> []"
    by (simp add: prompt_def prompt_lines_def newline_def)
  have k: "sublist (key td) (prompt td)"
    using ticket_line_in_prompt [of "''    TICKET KEY: '' @ key td" td 16]
    by (simp add: ticket_lines_def)
  have s: "sublist (summary td) (prompt td)"
    using ticket_line_in_prompt [of "''    SUMMARY: '' @ summary td" td 13]
    by (simp add: ticket_lines_def)
  have d: "sublist (description td) (prompt td)"
    using ticket_line_in_prompt [of "''    DESCRIPTION: '' @ description td" td 17]
    by (simp add: ticket_lines_def)
  have t: "sublist (issue_type td) (prompt td)"
    using ticket_line_in_prompt [of "''    ISSUE TYPE: '' @ issue_type td" td 16]
    by (simp add: ticket_lines_def)
  have p: "sublist (priority td) (prompt td)"
    using ticket_line_in_prompt [of "''    PRIORITY: '' @ priority td" td 14]
    by (simp add: ticket_lines_def)
  have a: "sublist (acceptance_criteria td) (prompt td)"
    using ticket_line_in_prompt
            [of "''    ACCEPTANCE CRITERIA: '' @ acceptance_criteria td" td 25]
    by (simp add: ticket_lines_def)
  have cl: "sublist (''COMPONENTS: '' @ components_str td) (prompt td)"
    using ticket_line_in_prompt [of "''    COMPONENTS: '' @ components_str td" td 4]
    by (simp add: ticket_lines_def)
  have cs: "sublist c (prompt td)" if "c \<in> set (components td)" for c
  proof -
    from that have "components td \<noteq> []" by auto
    then have "components_str td = py_join '', '' (components td)"
      by (simp add: components_str_def)
    with that have "sublist c (components_str td)"
      by (simp add: py_join_mem_sublist)
    then have "sublist c (''COMPONENTS: '' @ components_str td)"
      by (rule sublist_order.order.trans) (rule sublist_append_leftI)
    then show ?thesis using cl by (rule sublist_order.order.trans)
  qed
  from cl have cl': "sublist (''COMPONENTS: '' @
         (if components td = [] then ''No components'' else py_join '', '' (components td)))
        (prompt td)"
    by (cases "components td = []") (simp_all add: components_str_def)
  from cs have cs': "\<forall>c \<in> set (components td). sublist c (prompt td)" ..
  from nonempty k s d t p a cs' cl' show ?thesis by (intro conjI)
qed

text \<open>The end-to-end scenario: every text of the ticket is found in its prompt.\<close>

theorem prompt_contains_ticket_witness:
  "prompt login_ticket \<noteq> []
   \<and> sublist ''PROJ-1'' (prompt login_ticket)
   \<and> sublist ''Add login'' (prompt login_ticket)
   \<and> sublist ''User logs in with email'' (prompt login_ticket)
   \<and> sublist ''Story'' (prompt login_ticket)
   \<and> sublist ''High'' (prompt login_ticket)
   \<and> sublist ''User can log in with valid credentials'' (prompt login_ticket)
   \<and> sublist ''Auth'' (prompt login_ticket)
   \<and> sublist ''COMPONENTS: Auth'' (prompt login_ticket)"
  using prompt_contains_ticket [of login_ticket]
  by (simp add: login_ticket_def)

text \<open>
  C6. Every prompt ends with the same block of instructions, whatever the ticket. The block
  asks, for each test case, for an identifier (the placeholder reads \<open>TC-XX\<close>), an
  objective, preconditions, numbered steps, expected results and a priority among High,
  Medium and Low, and it asks to cover positive cases, negative cases, edge cases and
  boundary values, performance, security and integration points.
\<close>

theorem instruction_block_fixed:
  "suffix (py_join [newline] instruction_lines) (prompt td)
   \<and> sublist ''1. Test case ID (TC-XX format)'' (py_join [newline] instruction_lines)
   \<and> sublist ''2. Test objective'' (py_join [newline] instruction_lines)
   \<and> sublist ''3. Preconditions'' (py_join [newline] instruction_lines)
   \<and> sublist ''4. Test steps (numbered)'' (py_join [newline] instruction_lines)
   \<and> sublist ''5. Expected results'' (py_join [newline] instruction_lines)
   \<and> sublist ''6. Priority (High/Medium/Low)'' (py_join [newline] instruction_lines)
   \<and> sublist ''- Positive test cases'' (py_join [newline] instruction_lines)
   \<and> sublist ''- Negative test cases'' (py_join [newline] instruction_lines)
   \<and> sublist ''- Edge cases and boundary values'' (py_join [newline] instruction_lines)
   \<and> sublist ''- Performance considerations'' (py_join [newline] instruction_lines)
   \<and> sublist ''- Security aspects'' (py_join [newline] instruction_lines)
   \<and> sublist ''- Integration points with other components''
         (py_join [newline] instruction_lines)"
proof -
  have b: "suffix (py_join [newline] instruction_lines) (prompt td)"
    by (rule instruction_lines_suffix)
  have 1: "sublist ''1. Test case ID (TC-XX format)'' (py_join [newline] instruction_lines)"
    by (rule instruction_phrase [of 2]) (simp_all add: instruction_lines_def sublist_code)
  have 2: "sublist ''2. Test objective'' (py_join [newline] instruction_lines)"
    by (rule instruction_phrase [of 3]) (simp_all add: instruction_lines_def sublist_code)
  have 3: "sublist ''3. Preconditions'' (py_join [newline] instruction_lines)"
    by (rule instruction_phrase [of 4]) (simp_all add: instruction_lines_def sublist_code)
  have 4: "sublist ''4. Test steps (numbered)'' (py_join [newline] instruction_lines)"
    by (rule instruction_phrase [of 5]) (simp_all add: instruction_lines_def sublist_code)
  have 5: "sublist ''5. Expected results'' (py_join [newline] instruction_lines)"
    by (rule instruction_phrase [of 6]) (simp_all add: instruction_lines_def sublist_code)
  have 6: "sublist ''6. Priority (High/Medium/Low)'' (py_join [newline] instruction_lines)"
    by (rule instruction_phrase [of 7]) (simp_all add: instruction_lines_def sublist_code)
  have 7: "sublist ''- Positive test cases'' (py_join [newline] instruction_lines)"
    by (rule instruction_phrase [of 10]) (simp_all add: instruction_lines_def sublist_code)
  have 8: "sublist ''- Negative test cases'' (py_join [newline] instruction_lines)"
    by (rule instruction_phrase [of 11]) (simp_all add: instruction_lines_def sublist_code)
  have 9: "sublist ''- Edge cases and boundary values'' (py_join [newline] instruction_lines)"
    by (rule instruction_phrase [of 12]) (simp_all add: instruction_lines_def sublist_code)
  have 10: "sublist ''- Performance considerations'' (py_join [newline] instruction_lines)"
    by (rule instruction_phrase [of 13]) (simp_all add: instruction_lines_def sublist_code)
  have 11: "sublist ''- Security aspects'' (py_join [newline] instruction_lines)"
    by (rule instruction_phrase [of 14]) (simp_all add: instruction_lines_def sublist_code)
  have 12: "sublist ''- Integration points with other components''
      (py_join [newline] instruction_lines)"
    by (rule instruction_phrase [of 15]) (simp_all add: instruction_lines_def sublist_code)
  from b 1 2 3 4 5 6 7 8 9 10 11 12 show ?thesis by (intro conjI)
qed

text \<open>The scenario's prompt carries the phrase that asks for the identifier.\<close>

theorem instruction_block_fixed_witness:
  "sublist ''Test case ID (TC-XX format)'' (prompt login_ticket)"
proof -
  have "sublist ''Test case ID (TC-XX format)'' ''1. Test case ID (TC-XX format)''"
    by (simp add: sublist_code)
  with instruction_block_fixed [of login_ticket]
  have "sublist ''Test case ID (TC-XX format)'' (py_join [newline] instruction_lines)"
    using sublist_order.order.trans by blast
  moreover from instruction_block_fixed [of login_ticket]
  have "sublist (py_join [newline] instruction_lines) (prompt login_ticket)"
    by (simp add: suffix_imp_sublist)
  ultimately show ?thesis
    by (rule sublist_order.order.trans)
qed


section \<open>Reading a tracker record\<close>

lemma accept_nonempty: "sublist ''accept'' (map lower_char v) \<Longrightarrow> v \<noteq> []"
  by auto

lemma probe_step:
  "probe_custom_fields cf (n # ns) cur =
     (if contains_accept (cf n) then (case cf n of Val (PyStr v) \<Rightarrow> v | _ \<Rightarrow> cur)
      else probe_custom_fields cf ns cur)"
proof (cases "cf n")
  case (Val x)
  show ?thesis
  proof (cases x)
    case (PyStr v)
    have "(v \<noteq> [] \<and> py_in ''accept'' (py_lower v)) = sublist ''accept'' (map lower_char v)"
      using accept_nonempty [of v] by (auto simp: py_in_sublist py_lower_def)
    with Val PyStr show ?thesis by (simp add: contains_accept_def)
  next
    case PyOther
    with Val show ?thesis by (simp add: contains_accept_def)
  qed
qed (simp_all add: contains_accept_def)

lemma probe_custom_fields_first:
  "(\<exists>k < length names.
      contains_accept (cf (names ! k))
      \<and> (\<forall>j < k. \<not> contains_accept (cf (names ! j)))
      \<and> cf (names ! k) = Val (PyStr (probe_custom_fields cf names cur)))
   \<or> ((\<forall>j < length names. \<not> contains_accept (cf (names ! j)))
      \<and> probe_custom_fields cf names cur = cur)"
proof (induction names)
  case Nil
  then show ?case by simp
next
  case (Cons n ns)
  show ?case
  proof (cases "contains_accept (cf n)")
    case True
    then obtain v where v: "cf n = Val (PyStr v)"
      by (auto simp: contains_accept_def split: attr.splits pyval.splits)
    with True have "probe_custom_fields cf (n # ns) cur = v"
      by (simp add: probe_step del: probe_custom_fields.simps)
    with True v have "0 < length (n # ns) \<and> contains_accept (cf ((n # ns) ! 0))
        \<and> (\<forall>j < 0. \<not> contains_accept (cf ((n # ns) ! j)))
        \<and> cf ((n # ns) ! 0) = Val (PyStr (probe_custom_fields cf (n # ns) cur))"
      by simp
    then show ?thesis by blast
  next
    case False
    then have step: "probe_custom_fields cf (n # ns) cur = probe_custom_fields cf ns cur"
      by (simp add: probe_step del: probe_custom_fields.simps)
    from Cons.IH show ?thesis
    proof
      assume "\<exists>k<length ns. contains_accept (cf (ns ! k))
          \<and> (\<forall>j<k. \<not> contains_accept (cf (ns ! j)))
          \<and> cf (ns ! k) = Val (PyStr (probe_custom_fields cf ns cur))"
      then obtain k where k: "k < length ns" "contains_accept (cf (ns ! k))"
          "\<forall>j<k. \<not> contains_accept (cf (ns ! j))"
          "cf (ns ! k) = Val (PyStr (probe_custom_fields cf ns cur))"
        by blast
      have "\<forall>j < Suc k. \<not> contains_accept (cf ((n # ns) ! j))"
        using False k(3) by (auto simp: nth_Cons split: nat.splits)
      with k step have "Suc k < length (n # ns) \<and> contains_accept (cf ((n # ns) ! Suc k))
          \<and> (\<forall>j < Suc k. \<not> contains_accept (cf ((n # ns) ! j)))
          \<and> cf ((n # ns) ! Suc k) = Val (PyStr (probe_custom_fields cf (n # ns) cur))"
        by simp
      then show ?thesis by blast
    next
      assume a: "(\<forall>j<length ns. \<not> contains_accept (cf (ns ! j)))
          \<and> probe_custom_fields cf ns cur = cur"
      then have "\<forall>j < length (n # ns). \<not> contains_accept (cf ((n # ns) ! j))"
        using False by (auto simp: nth_Cons split: nat.splits)
      with a step show ?thesis by simp
    qed
  qed
qed

lemma extract_details_acceptance:
  "extract_details i = Some d \<Longrightarrow>
   acceptance_criteria d =
     probe_custom_fields (fields_custom i) custom_field_names ''No acceptance criteria provided''"
  by (auto simp: extract_details_def split: Option.bind_splits)

lemma get_ticket_details_Some:
  assumes "jira_issue sv (world st) jira issue_key = (Returned i, w)"
    and "fst (get_ticket_details sv jira issue_key st) = Some d"
  shows "extract_details i = Some d"
  using assms by (auto simp: get_ticket_details_def split: option.splits)

lemma those_named [simp]: "those (map (object_name \<circ> Named) cs) = Some cs"
  by (induction cs) (simp_all add: object_name_def)

lemma extract_details_fails:
  assumes "issue_key_attr i = Missing \<or> fields_summary i = Missing
     \<or> (\<forall>n. fields_status i \<noteq> Val (Named n)) \<or> (\<forall>n. fields_issuetype i \<noteq> Val (Named n))
     \<or> fields_created i = Missing \<or> fields_updated i = Missing"
  shows "extract_details i = None"
proof -
  have s: "attr_name a = None" if "\<forall>n. a \<noteq> Val (Named n)" for a
    using that by (auto simp: attr_name_def object_name_def split: attr.splits named.splits)
  from assms s [of "fields_status i"] s [of "fields_issuetype i"] show ?thesis
    by (auto simp: extract_details_def read_value_def split: Option.bind_splits)
qed

lemma extract_details_succeeds:
  assumes "issue_key_attr i \<noteq> Missing" and "fields_summary i \<noteq> Missing"
    and "fields_status i = Val (Named sn)" and "fields_issuetype i = Val (Named tn)"
    and "fields_created i \<noteq> Missing" and "fields_updated i \<noteq> Missing"
    and "fields_description i \<noteq> Missing"
    and "fields_priority i \<noteq> Val Unnamed"
    and "fields_components i = Missing \<or> (\<exists>cs. fields_components i = Val (map Named cs))"
  shows "\<exists>d. extract_details i = Some d"
proof -
  obtain k where k: "read_value (issue_key_attr i) = Some k"
    using assms(1) by (cases "issue_key_attr i") (simp_all add: read_value_def)
  obtain s where s: "read_value (fields_summary i) = Some s"
    using assms(2) by (cases "fields_summary i") (simp_all add: read_value_def)
  obtain cr where cr: "read_value (fields_created i) = Some cr"
    using assms(5) by (cases "fields_created i") (simp_all add: read_value_def)
  obtain up where up: "read_value (fields_updated i) = Some up"
    using assms(6) by (cases "fields_updated i") (simp_all add: read_value_def)
  obtain d where d: "description_or_default (fields_description i) = Some d"
    using assms(7) by (cases "fields_description i") (simp_all add: description_or_default_def)
  obtain pr where pr: "priority_or_default (fields_priority i) = Some pr"
  proof (cases "fields_priority i")
    case (Val c)
    with assms(8) that show ?thesis
      by (cases c) (simp_all add: priority_or_default_def object_name_def)
  qed (simp_all add: priority_or_default_def that)
  obtain cs where cs: "component_names (fields_components i) = Some cs"
    using assms(9) by (auto simp: component_names_def)
  from assms(3,4) k s cr up d pr cs show ?thesis
    by (simp add: extract_details_def attr_name_def object_name_def)
qed

lemma extract_details_fields:
  assumes "extract_details i = Some d"
  shows "\<forall>k. issue_key_attr i = Val k \<longrightarrow> key d = k"
    and "\<forall>s. fields_summary i = Val s \<longrightarrow> summary d = s"
    and "\<forall>n. fields_status i = Val (Named n) \<longrightarrow> status d = Some n"
    and "\<forall>n. fields_issuetype i = Val (Named n) \<longrightarrow> issue_type d = n"
    and "fields_description i = Null \<or> fields_description i = Val []
           \<longrightarrow> description d = ''No description provided''"
    and "\<forall>text. fields_description i = Val text \<and> text \<noteq> [] \<longrightarrow> description d = text"
    and "fields_priority i = Missing \<or> fields_priority i = Null \<longrightarrow> priority d = ''Not set''"
    and "\<forall>p. fields_priority i = Val (Named p) \<longrightarrow> priority d = p"
    and "fields_components i = Missing \<longrightarrow> components d = []"
    and "\<forall>cs. fields_components i = Val (map Named cs) \<longrightarrow> components d = cs"
  using assms
  by (auto simp: extract_details_def read_value_def description_or_default_def attr_name_def
        object_name_def component_names_def priority_or_default_def
        split: Option.bind_splits)

lemma demo_fetch:
  "jira_issue demo_services (world demo_session) demo_jira ''PROJ-1'' = (Returned demo_issue, 0)"
  by (simp add: demo_services_def demo_session_def demo_issue_def)

lemma demo_extract:
  "extract_details demo_issue =
     Some \<lparr>key = ''PROJ-1'', summary = ''Add login'', description = ''User logs in with email'',
           status = Some ''Open'', issue_type = ''Story'', priority = ''High'',
           components = [''Auth''], created = Some ''2024-01-01'',
           updated = Some ''2024-01-02'',
           acceptance_criteria = ''Acceptance: user can log in''\<rparr>"
  by (simp add: extract_details_def demo_issue_def read_value_def description_or_default_def
      attr_name_def object_name_def component_names_def priority_or_default_def
      custom_field_names_def py_lower_def lower_char_def)


text \<open>
  C1. When \<open>get_ticket_details\<close> returns details for a fetched record, their acceptance
  criteria are found by going through \<open>customfield_10000\<close> to \<open>customfield_10005\<close> in
  this order: they are the value of the first of these fields that holds a string in which
  \<open>accept\<close> occurs, letter case disregarded, and the placeholder \<open>No acceptance criteria
  provided\<close> when none of the six does.
\<close>

theorem acceptance_criteria_first_match:
  assumes "jira_issue sv (world st) jira issue_key = (Returned i, w)"
    and "fst (get_ticket_details sv jira issue_key st) = Some d"
  shows "custom_field_names =
           [''customfield_10000'', ''customfield_10001'', ''customfield_10002'',
            ''customfield_10003'', ''customfield_10004'', ''customfield_10005'']
         \<and> ((\<exists>k < 6.
                contains_accept (fields_custom i (custom_field_names ! k))
                \<and> (\<forall>j < k. \<not> contains_accept (fields_custom i (custom_field_names ! j)))
                \<and> fields_custom i (custom_field_names ! k) = Val (PyStr (acceptance_criteria d)))
            \<or> ((\<forall>j < 6. \<not> contains_accept (fields_custom i (custom_field_names ! j)))
                \<and> acceptance_criteria d = ''No acceptance criteria provided''))"
proof -
  from assms have "extract_details i = Some d"
    by (rule get_ticket_details_Some)
  then have "acceptance_criteria d =
     probe_custom_fields (fields_custom i) custom_field_names ''No acceptance criteria provided''"
    by (rule extract_details_acceptance)
  moreover have "length custom_field_names = 6"
    by (simp add: custom_field_names_def)
  ultimately show ?thesis
    using probe_custom_fields_first
      [of custom_field_names "fields_custom i" "''No acceptance criteria provided''"]
    by (simp add: custom_field_names_def [symmetric])
qed



text \<open>
  A record whose third probed field is the only one that mentions acceptance: its value is
  what the details carry.
\<close>

theorem acceptance_criteria_first_match_witness:
  "jira_issue demo_services (world demo_session) demo_jira ''PROJ-1'' = (Returned demo_issue, 0)
   \<and> acceptance_criteria
        (the (fst (get_ticket_details demo_services demo_jira ''PROJ-1'' demo_session)))
       = ''Acceptance: user can log in''
   \<and> fields_custom demo_issue (custom_field_names ! 2) = Val (PyStr ''Acceptance: user can log in'')
   \<and> ((\<exists>k < 6.
          contains_accept (fields_custom demo_issue (custom_field_names ! k))
          \<and> (\<forall>j < k. \<not> contains_accept (fields_custom demo_issue (custom_field_names ! j)))
          \<and> fields_custom demo_issue (custom_field_names ! k)
              = Val (PyStr ''Acceptance: user can log in''))
        \<or> ((\<forall>j < 6. \<not> contains_accept (fields_custom demo_issue (custom_field_names ! j)))
            \<and> ''Acceptance: user can log in'' = ''No acceptance criteria provided''))"
proof -
  have got: "fst (get_ticket_details demo_services demo_jira ''PROJ-1'' demo_session)
      = Some \<lparr>key = ''PROJ-1'', summary = ''Add login'', description = ''User logs in with email'',
           status = Some ''Open'', issue_type = ''Story'', priority = ''High'',
           components = [''Auth''], created = Some ''2024-01-01'',
           updated = Some ''2024-01-02'',
           acceptance_criteria = ''Acceptance: user can log in''\<rparr>"
    by (simp add: get_ticket_details_def demo_fetch demo_extract)
  have third: "fields_custom demo_issue (custom_field_names ! 2)
      = Val (PyStr ''Acceptance: user can log in'')"
    by (simp add: demo_issue_def custom_field_names_def)
  from acceptance_criteria_first_match [OF demo_fetch got] got third demo_fetch
  show ?thesis by simp
qed



text \<open>
  C5. The defaults are there, but two of them are guarded for one form of absence only.
  A record whose attribute \<open>description\<close> is missing is not read at all: line 128 reads the
  attribute without a guard, the read raises, and the function shows the error and returns
  \<open>None\<close> instead of details with \<open>No description provided\<close>. The same happens to a record
  whose components are \<open>None\<close>. The priority beside them is guarded for both forms, a
  missing attribute and \<open>None\<close>, and both give \<open>Not set\<close>; so do a description that is
  \<open>None\<close> and components whose attribute is missing give their default.
\<close>

theorem missing_description_attribute_fails:
  "get_ticket_details
     (demo_services\<lparr>jira_issue :=
        \<lambda>w c k. (Returned (demo_issue\<lparr>fields_description := Missing\<rparr>), w)\<rparr>)
     demo_jira ''PROJ-1'' demo_session
    = (None, demo_session\<lparr>errors := [TicketDetailsError]\<rparr>)
   \<and> get_ticket_details
     (demo_services\<lparr>jira_issue :=
        \<lambda>w c k. (Returned (demo_issue\<lparr>fields_components := Null\<rparr>), w)\<rparr>)
     demo_jira ''PROJ-1'' demo_session
    = (None, demo_session\<lparr>errors := [TicketDetailsError]\<rparr>)
   \<and> map_option description (extract_details (demo_issue\<lparr>fields_description := Null\<rparr>))
    = Some ''No description provided''
   \<and> map_option components (extract_details (demo_issue\<lparr>fields_components := Missing\<rparr>))
    = Some []
   \<and> map_option priority (extract_details (demo_issue\<lparr>fields_priority := Missing\<rparr>))
    = Some ''Not set''
   \<and> map_option priority (extract_details (demo_issue\<lparr>fields_priority := Null\<rparr>))
    = Some ''Not set''"
  by (simp add: get_ticket_details_def extract_details_def demo_services_def demo_issue_def
      demo_session_def read_value_def description_or_default_def attr_name_def object_name_def
      component_names_def priority_or_default_def st_error_def)

text \<open>
  C7, as stated, fails: a record that has its key but no status is not read; the function
  shows the error and returns \<open>None\<close>.
\<close>

theorem missing_status_fails:
  "issue_key_attr (demo_issue\<lparr>fields_status := Missing\<rparr>) = Val ''PROJ-1''
   \<and> get_ticket_details
        (demo_services\<lparr>jira_issue := \<lambda>w c k. (Returned (demo_issue\<lparr>fields_status := Missing\<rparr>), w)\<rparr>)
        demo_jira ''PROJ-1'' demo_session
      = (None, demo_session\<lparr>errors := [TicketDetailsError]\<rparr>)"
  by (simp add: get_ticket_details_def extract_details_def demo_services_def demo_issue_def
      demo_session_def read_value_def description_or_default_def attr_name_def st_error_def)

text \<open>
  C7, amended. \<open>get_ticket_details\<close> returns \<open>None\<close> when the fetch raises, when the key
  is missing, and also when the summary, the creation date or the update date is missing
  or the status or the issue type is not an object with a name: the code has no default for
  any of these. For a fetched record in which these can be read, the attribute
  \<open>description\<close> exists, the priority is missing, \<open>None\<close> or an object with a name and the
  components are missing or a list of objects with names, it returns details and never
  fails, and the defaults are applied: \<open>Not set\<close> for a priority that is missing or
  \<open>None\<close>, the empty list for missing components, \<open>No description provided\<close> for a
  description that is \<open>None\<close> or empty, and what the probe of the custom fields gives for
  the acceptance criteria; every other field is the record's own.
\<close>

theorem normalizer_failure_cases:
  assumes "jira_issue sv (world st) jira issue_key = (r, w)"
  shows "(r = Raised \<longrightarrow> fst (get_ticket_details sv jira issue_key st) = None)
     \<and> (r = Returned i
         \<and> (issue_key_attr i = Missing \<or> fields_summary i = Missing
            \<or> (\<forall>n. fields_status i \<noteq> Val (Named n))
            \<or> (\<forall>n. fields_issuetype i \<noteq> Val (Named n))
            \<or> fields_created i = Missing \<or> fields_updated i = Missing)
        \<longrightarrow> fst (get_ticket_details sv jira issue_key st) = None)
     \<and> (r = Returned i
         \<and> issue_key_attr i \<noteq> Missing \<and> fields_summary i \<noteq> Missing
         \<and> fields_status i = Val (Named sn) \<and> fields_issuetype i = Val (Named tn)
         \<and> fields_created i \<noteq> Missing \<and> fields_updated i \<noteq> Missing
         \<and> fields_description i \<noteq> Missing
         \<and> fields_priority i \<noteq> Val Unnamed
         \<and> (fields_components i = Missing \<or> (\<exists>cs. fields_components i = Val (map Named cs)))
        \<longrightarrow> (\<exists>d. fst (get_ticket_details sv jira issue_key st) = Some d
              \<and> (\<forall>k. issue_key_attr i = Val k \<longrightarrow> key d = k)
              \<and> (\<forall>s. fields_summary i = Val s \<longrightarrow> summary d = s)
              \<and> status d = Some sn
              \<and> issue_type d = tn
              \<and> (fields_description i = Null \<or> fields_description i = Val []
                    \<longrightarrow> description d = ''No description provided'')
              \<and> (\<forall>text. fields_description i = Val text \<and> text \<noteq> []
                    \<longrightarrow> description d = text)
              \<and> (fields_priority i = Missing \<or> fields_priority i = Null
                    \<longrightarrow> priority d = ''Not set'')
              \<and> (\<forall>p. fields_priority i = Val (Named p) \<longrightarrow> priority d = p)
              \<and> (fields_components i = Missing \<longrightarrow> components d = [])
              \<and> (\<forall>cs. fields_components i = Val (map Named cs) \<longrightarrow> components d = cs)
              \<and> acceptance_criteria d =
                  probe_custom_fields (fields_custom i) custom_field_names
                    ''No acceptance criteria provided''))"
proof -
  have a: "r = Raised \<longrightarrow> fst (get_ticket_details sv jira issue_key st) = None"
    using assms by (simp add: get_ticket_details_def)
  have eq: "fst (get_ticket_details sv jira issue_key st) = extract_details i"
    if "r = Returned i"
    using assms that by (simp add: get_ticket_details_def split: option.splits)
  have b: "r = Returned i
         \<and> (issue_key_attr i = Missing \<or> fields_summary i = Missing
            \<or> (\<forall>n. fields_status i \<noteq> Val (Named n))
            \<or> (\<forall>n. fields_issuetype i \<noteq> Val (Named n))
            \<or> fields_created i = Missing \<or> fields_updated i = Missing)
        \<longrightarrow> fst (get_ticket_details sv jira issue_key st) = None"
    using eq extract_details_fails [of i] by simp
  have c: "\<exists>d. fst (get_ticket_details sv jira issue_key st) = Some d
              \<and> (\<forall>k. issue_key_attr i = Val k \<longrightarrow> key d = k)
              \<and> (\<forall>s. fields_summary i = Val s \<longrightarrow> summary d = s)
              \<and> status d = Some sn
              \<and> issue_type d = tn
              \<and> (fields_description i = Null \<or> fields_description i = Val []
                    \<longrightarrow> description d = ''No description provided'')
              \<and> (\<forall>text. fields_description i = Val text \<and> text \<noteq> []
                    \<longrightarrow> description d = text)
              \<and> (fields_priority i = Missing \<or> fields_priority i = Null
                    \<longrightarrow> priority d = ''Not set'')
              \<and> (\<forall>p. fields_priority i = Val (Named p) \<longrightarrow> priority d = p)
              \<and> (fields_components i = Missing \<longrightarrow> components d = [])
              \<and> (\<forall>cs. fields_components i = Val (map Named cs) \<longrightarrow> components d = cs)
              \<and> acceptance_criteria d =
                  probe_custom_fields (fields_custom i) custom_field_names
                    ''No acceptance criteria provided''"
    if r: "r = Returned i"
      and ok: "issue_key_attr i \<noteq> Missing" "fields_summary i \<noteq> Missing"
        "fields_status i = Val (Named sn)" "fields_issuetype i = Val (Named tn)"
        "fields_created i \<noteq> Missing" "fields_updated i \<noteq> Missing"
        "fields_description i \<noteq> Missing" "fields_priority i \<noteq> Val Unnamed"
        "fields_components i = Missing \<or> (\<exists>cs. fields_components i = Val (map Named cs))"
  proof -
    from ok obtain d where d: "extract_details i = Some d"
      using extract_details_succeeds [of i sn tn] by blast
    note f = extract_details_fields [OF d]
    from ok(3) f(3) have st: "status d = Some sn" by simp
    from ok(4) f(4) have ty: "issue_type d = tn" by simp
    from d have acc: "acceptance_criteria d =
        probe_custom_fields (fields_custom i) custom_field_names
          ''No acceptance criteria provided''"
      by (rule extract_details_acceptance)
    from eq [OF r] d have "fst (get_ticket_details sv jira issue_key st) = Some d" by simp
    with f(1,2) st ty f(5,6,7,8,9,10) acc show ?thesis by blast
  qed
  from a b c show ?thesis by blast
qed

text \<open>
  A record with no description, no priority, no components and no custom field is read, and
  all four defaults appear; the sample record without its issue type is not read.
\<close>

theorem normalizer_failure_cases_witness:
  "jira_issue (demo_services\<lparr>jira_issue := \<lambda>w c k. (Returned sparse_issue, w)\<rparr>)
      (world demo_session) demo_jira ''PROJ-2'' = (Returned sparse_issue, 0)
   \<and> fst (get_ticket_details (demo_services\<lparr>jira_issue := \<lambda>w c k. (Returned sparse_issue, w)\<rparr>)
            demo_jira ''PROJ-2'' demo_session) \<noteq> None
   \<and> fst (get_ticket_details (demo_services\<lparr>jira_issue := \<lambda>w c k. (Returned sparse_issue, w)\<rparr>)
            demo_jira ''PROJ-2'' demo_session)
     = Some \<lparr>key = ''PROJ-2'', summary = ''Export report'',
             description = ''No description provided'', status = Some ''To Do'',
             issue_type = ''Task'', priority = ''Not set'', components = [],
             created = Some ''2024-02-01'', updated = Some ''2024-02-01'',
             acceptance_criteria = ''No acceptance criteria provided''\<rparr>
   \<and> fst (get_ticket_details
            (demo_services\<lparr>jira_issue :=
               \<lambda>w c k. (Returned (demo_issue\<lparr>fields_issuetype := Null\<rparr>), w)\<rparr>)
            demo_jira ''PROJ-1'' demo_session) = None"
proof -
  let ?sv = "demo_services\<lparr>jira_issue := \<lambda>w c k. (Returned sparse_issue, w)\<rparr>"
  let ?sv' = "demo_services\<lparr>jira_issue :=
      \<lambda>w c k. (Returned (demo_issue\<lparr>fields_issuetype := Null\<rparr>), w)\<rparr>"
  have fetch: "jira_issue ?sv (world demo_session) demo_jira ''PROJ-2'' = (Returned sparse_issue, 0)"
    by (simp add: demo_session_def)
  have fetch': "jira_issue ?sv' (world demo_session) demo_jira ''PROJ-1''
      = (Returned (demo_issue\<lparr>fields_issuetype := Null\<rparr>), 0)"
    by (simp add: demo_session_def)
  have read: "fst (get_ticket_details ?sv demo_jira ''PROJ-2'' demo_session) \<noteq> None"
    using normalizer_failure_cases [OF fetch, of sparse_issue "''To Do''" "''Task''"]
    by (auto simp: sparse_issue_def)
  have unread: "fst (get_ticket_details ?sv' demo_jira ''PROJ-1'' demo_session) = None"
    using normalizer_failure_cases [OF fetch', of "demo_issue\<lparr>fields_issuetype := Null\<rparr>"]
    by simp
  have details: "fst (get_ticket_details ?sv demo_jira ''PROJ-2'' demo_session)
      = Some \<lparr>key = ''PROJ-2'', summary = ''Export report'',
             description = ''No description provided'', status = Some ''To Do'',
             issue_type = ''Task'', priority = ''Not set'', components = [],
             created = Some ''2024-02-01'', updated = Some ''2024-02-01'',
             acceptance_criteria = ''No acceptance criteria provided''\<rparr>"
    by (simp add: get_ticket_details_def demo_session_def extract_details_def sparse_issue_def
        read_value_def description_or_default_def attr_name_def object_name_def
        component_names_def priority_or_default_def custom_field_names_def)
  from fetch read details unread show ?thesis by (intro conjI)
qed


section \<open>Splitting lines\<close>

lemma py_split_nonempty: "py_split sep s \<noteq> []"
  by (induction s) (auto split: list.splits)

lemma py_split_parts_free: "p \<in> set (py_split sep s) \<Longrightarrow> sep \<notin> set p"
proof (induction s arbitrary: p)
  case Nil
  then show ?case by simp
next
  case (Cons c cs)
  show ?case
  proof (cases "c = sep")
    case True
    with Cons show ?thesis by auto
  next
    case False
    obtain q qs where q: "py_split sep cs = q # qs"
      using py_split_nonempty [of sep cs] by (cases "py_split sep cs") auto
    with False Cons.prems have "p = c # q \<or> p \<in> set qs" by simp
    then show ?thesis
    proof
      assume "p = c # q"
      moreover from q have "sep \<notin> set q" using Cons.IH [of q] by simp
      ultimately show ?thesis using False by simp
    next
      assume "p \<in> set qs"
      with q show ?thesis using Cons.IH [of p] by simp
    qed
  qed
qed

lemma py_split_free: "sep \<notin> set p \<Longrightarrow> py_split sep p = [p]"
  by (induction p) auto

lemma py_split_append:
  "sep \<notin> set p \<Longrightarrow> py_split sep (p @ sep # s) = p # py_split sep s"
  by (induction p) auto

lemma py_join_split: "py_join [sep] (py_split sep s) = s"
proof (induction s)
  case Nil
  then show ?case by simp
next
  case (Cons c cs)
  obtain q qs where q: "py_split sep cs = q # qs"
    using py_split_nonempty [of sep cs] by (cases "py_split sep cs") auto
  show ?case
  proof (cases "c = sep")
    case True
    with Cons q show ?thesis by simp
  next
    case False
    with Cons q show ?thesis by (cases qs) auto
  qed
qed

lemma py_split_three:
  assumes "py_split sep line = p0 # p1 # p2 # rest"
  shows "py_split sep (p0 @ [sep] @ p1 @ [sep] @ p2) = [p0, p1, p2]"
    and "sep \<notin> set p2"
    and "prefix (p0 @ [sep] @ p1 @ [sep] @ p2) line"
    and "rest \<noteq> [] \<Longrightarrow> line = p0 @ [sep] @ p1 @ [sep] @ p2 @ [sep] @ py_join [sep] rest"
proof -
  have free: "sep \<notin> set p0" "sep \<notin> set p1" "sep \<notin> set p2"
    using py_split_parts_free [of _ sep line] assms by simp_all
  then show "py_split sep (p0 @ [sep] @ p1 @ [sep] @ p2) = [p0, p1, p2]"
    by (simp add: py_split_append py_split_free)
  from free show "sep \<notin> set p2" by simp
  have line: "line = py_join [sep] (p0 # p1 # p2 # rest)"
    using py_join_split [of sep line] assms by simp
  then show "prefix (p0 @ [sep] @ p1 @ [sep] @ p2) line"
    by (cases rest) (simp_all add: prefix_def)
  show "line = p0 @ [sep] @ p1 @ [sep] @ p2 @ [sep] @ py_join [sep] rest" if "rest \<noteq> []"
    using that line by (cases rest) simp_all
qed

lemma py_strip_subset: "set (py_strip s) \<subseteq> set s"
proof -
  have "set (py_strip s) \<subseteq> set (dropWhile is_space s)"
    unfolding py_strip_def using set_dropWhileD [of _ is_space "rev (dropWhile is_space s)"]
    by auto
  also have "\<dots> \<subseteq> set s"
    using set_dropWhileD [of _ is_space s] by auto
  finally show ?thesis .
qed


section \<open>What a generation leaves in the session\<close>

lemma generate_test_cases_session:
  assumes "generate_test_cases sv td api m st = (r, st')"
  shows "generated_test_cases st' = generated_test_cases st"
    and "attempts st' = attempts st @ [td]"
  using assms
  by (auto simp: generate_test_cases_def Let_def st_error_def
      split: if_splits prod.splits outcome.splits)

lemma store_test_cases_session:
  "attempts (store_test_cases k r st) = attempts st"
  "errors (store_test_cases k r st) = errors st"
  "world (store_test_cases k r st) = world st"
  by (auto simp: store_test_cases_def split: option.splits)

lemma store_test_cases_store:
  "generated_test_cases (store_test_cases k r st) =
     (case r of
        None \<Rightarrow> generated_test_cases st
      | Some t \<Rightarrow> if t = [] then generated_test_cases st else (generated_test_cases st)(k \<mapsto> t))"
  by (auto simp: store_test_cases_def split: option.splits)

lemma generate_and_store_attempts:
  "attempts (generate_and_store sv k td api m st) = attempts st @ [td]"
  by (auto simp: generate_and_store_def store_test_cases_session
      dest: generate_test_cases_session(2) split: prod.splits)

lemma generate_and_store_store:
  "generated_test_cases (generate_and_store sv k td api m st) =
     (case fst (generate_test_cases sv td api m st) of
        None \<Rightarrow> generated_test_cases st
      | Some t \<Rightarrow> if t = [] then generated_test_cases st else (generated_test_cases st)(k \<mapsto> t))"
  by (auto simp: generate_and_store_def store_test_cases_store
      dest: generate_test_cases_session(1) split: prod.splits option.splits)

lemma generate_and_store_other:
  "k' \<noteq> k \<Longrightarrow>
   generated_test_cases (generate_and_store sv k td api m st) k' = generated_test_cases st k'"
  by (simp add: generate_and_store_store split: option.splits)

lemma generate_test_cases_failure:
  "api = [] \<or> \<not> openai_client sv api
     \<or> fst (chat_create sv (world st) m system_content (prompt td)) = Raised
   \<Longrightarrow> fst (generate_test_cases sv td api m st) = None"
  by (auto simp: generate_test_cases_def Let_def split: prod.splits outcome.splits)

lemma get_ticket_details_session:
  assumes "get_ticket_details sv jira k st = (r, st')"
  shows "generated_test_cases st' = generated_test_cases st"
    and "attempts st' = attempts st"
  using assms
  by (auto simp: get_ticket_details_def st_error_def
      split: prod.splits outcome.splits option.splits)

lemma get_ticket_details_error:
  assumes "get_ticket_details sv jira k st = (None, st')"
  shows "errors st' = errors st @ [TicketDetailsError]"
  using assms
  by (auto simp: get_ticket_details_def st_error_def
      split: prod.splits outcome.splits option.splits)

lemma connect_to_jira_session:
  assumes "connect_to_jira sv url email token st = (r, st')"
  shows "generated_test_cases st' = generated_test_cases st"
    and "attempts st' = attempts st"
  using assms
  by (auto simp: connect_to_jira_def st_error_def
      split: if_splits prod.splits outcome.splits)

lemma batch_manual_line_attempts:
  "attempts (batch_manual_line sv api m l st) =
     attempts st @ (if 3 \<le> length (py_split CHR ''|'' l)
                    then [manual_ticket_of (py_split CHR ''|'' l)] else [])"
  by (simp add: batch_manual_line_def Let_def generate_and_store_attempts)

lemma batch_manual_loop_attempts:
  "attempts (batch_manual_loop sv api m ls st) =
     attempts st @ map (\<lambda>l. manual_ticket_of (py_split CHR ''|'' l))
                     (filter (\<lambda>l. 3 \<le> length (py_split CHR ''|'' l)) ls)"
  by (induction ls arbitrary: st) (simp_all add: batch_manual_line_attempts)

lemma batch_manual_loop_append:
  "batch_manual_loop sv api m (ls @ ms) st =
     batch_manual_loop sv api m ms (batch_manual_loop sv api m ls st)"
  by (induction ls arbitrary: st) simp_all

lemma batch_jira_loop_append:
  "batch_jira_loop sv jira api m (xs @ ys) st =
     batch_jira_loop sv jira api m ys (batch_jira_loop sv jira api m xs st)"
  by (induction xs arbitrary: st) simp_all

lemma batch_jira_item_other:
  "k' \<noteq> k \<Longrightarrow>
   generated_test_cases (batch_jira_item sv jira api m k st) k' = generated_test_cases st k'"
  by (auto simp: batch_jira_item_def generate_and_store_other
      dest: get_ticket_details_session(1) split: prod.splits option.splits)

lemma batch_jira_loop_other:
  "k' \<notin> set ks \<Longrightarrow>
   generated_test_cases (batch_jira_loop sv jira api m ks st) k' = generated_test_cases st k'"
  by (induction ks arbitrary: st) (simp_all add: batch_jira_item_other)

lemma batch_manual_line_other:
  "k' \<noteq> py_strip (py_split CHR ''|'' l ! 0) \<Longrightarrow>
   generated_test_cases (batch_manual_line sv api m l st) k' = generated_test_cases st k'"
  by (simp add: batch_manual_line_def Let_def generate_and_store_other)

lemma get_ticket_details_quiet:
  assumes "get_ticket_details sv jira k st = (Some d, st')"
  shows "errors st' = errors st"
  using assms
  by (auto simp: get_ticket_details_def st_error_def
      split: prod.splits outcome.splits option.splits)

lemma generate_and_store_outcomes:
  "attempts (generate_and_store sv k d api m s) = attempts s @ [d]"
  "api = [] \<longrightarrow>
     errors (generate_and_store sv k d api m s) = errors s @ [ApiKeyRequired]
     \<and> generated_test_cases (generate_and_store sv k d api m s) = generated_test_cases s"
  "api \<noteq> [] \<and> \<not> openai_client sv api \<longrightarrow>
     errors (generate_and_store sv k d api m s) = errors s @ [ClientInitError]
     \<and> generated_test_cases (generate_and_store sv k d api m s) = generated_test_cases s"
  "api \<noteq> [] \<and> openai_client sv api
     \<and> fst (chat_create sv (world s) m system_content (prompt d)) = Raised \<longrightarrow>
     errors (generate_and_store sv k d api m s) = errors s @ [GenerationError]
     \<and> generated_test_cases (generate_and_store sv k d api m s) = generated_test_cases s"
  "api \<noteq> [] \<and> openai_client sv api
     \<and> (fst (chat_create sv (world s) m system_content (prompt d)) = Returned None
        \<or> fst (chat_create sv (world s) m system_content (prompt d)) = Returned (Some []))
     \<longrightarrow>
     errors (generate_and_store sv k d api m s) = errors s
     \<and> generated_test_cases (generate_and_store sv k d api m s) = generated_test_cases s"
  "\<forall>t. api \<noteq> [] \<and> openai_client sv api
     \<and> fst (chat_create sv (world s) m system_content (prompt d)) = Returned (Some t)
     \<and> t \<noteq> [] \<longrightarrow>
     errors (generate_and_store sv k d api m s) = errors s
     \<and> generated_test_cases (generate_and_store sv k d api m s)
        = (generated_test_cases s)(k \<mapsto> t)"
  by (auto simp: generate_and_store_def generate_test_cases_def Let_def store_test_cases_def
      st_error_def split: prod.splits outcome.splits option.splits)

lemma tab3_manual_store:
  "generated_test_cases (tab3_manual sv td api m st) =
     (if api = [] then generated_test_cases st
      else generated_test_cases (generate_and_store sv (key td) td api m st))"
  by (simp add: tab3_manual_def st_error_def)

lemma tab3_jira_store:
  "generated_test_cases (tab3_jira sv url email token api m k st) = generated_test_cases st
   \<or> (\<exists>d st2. generated_test_cases st2 = generated_test_cases st
         \<and> generated_test_cases (tab3_jira sv url email token api m k st)
           = generated_test_cases (generate_and_store sv k d api m st2))"
proof -
  obtain j st1 where c: "connect_to_jira sv url email token st = (j, st1)"
    by (cases "connect_to_jira sv url email token st") simp
  then have s1: "generated_test_cases st1 = generated_test_cases st"
    by (simp add: connect_to_jira_session)
  show ?thesis
  proof (cases j)
    case None
    with c s1 show ?thesis by (auto simp: tab3_jira_def st_error_def)
  next
    case (Some jira)
    obtain r st2 where g: "get_ticket_details sv jira k st1 = (r, st2)"
      by (cases "get_ticket_details sv jira k st1") simp
    then have s2: "generated_test_cases st2 = generated_test_cases st"
      using s1 by (simp add: get_ticket_details_session)
    show ?thesis
    proof (cases r)
      case None
      with c Some g s2 show ?thesis by (auto simp: tab3_jira_def st_error_def)
    next
      case (Some d)
      with c \<open>j = Some jira\<close> g s2 show ?thesis
        by (auto simp: tab3_jira_def st_error_def)
    qed
  qed
qed


section \<open>The sample services\<close>

lemma demo_get_ticket_details:
  "k \<noteq> ''PROJ-404'' \<Longrightarrow>
   get_ticket_details demo_services demo_jira k st = (Some (demo_details k), st)"
  by (simp add: get_ticket_details_def extract_details_def demo_services_def demo_issue_def
      demo_details_def read_value_def description_or_default_def attr_name_def object_name_def
      component_names_def priority_or_default_def custom_field_names_def py_lower_def
      lower_char_def)

lemma demo_get_ticket_details_unknown:
  "get_ticket_details demo_services demo_jira ''PROJ-404'' st
     = (None, st\<lparr>errors := errors st @ [TicketDetailsError]\<rparr>)"
  by (simp add: get_ticket_details_def demo_services_def st_error_def)

lemma demo_generate_and_store:
  "generate_and_store demo_services k td ''sk-demo'' m st =
     (if world st = 2
      then st\<lparr>attempts := attempts st @ [td], world := 3,
               errors := errors st @ [GenerationError]\<rparr>
      else if world st = 5
      then st\<lparr>attempts := attempts st @ [td], world := 6\<rparr>
      else st\<lparr>attempts := attempts st @ [td], world := Suc (world st),
               generated_test_cases := (generated_test_cases st)(k \<mapsto> ''TC-01'')\<rparr>)"
  by (simp add: generate_and_store_def generate_test_cases_def Let_def demo_services_def
      store_test_cases_def st_error_def)

lemma demo_batch_jira_item:
  "k \<noteq> ''PROJ-404'' \<Longrightarrow>
   batch_jira_item demo_services demo_jira ''sk-demo'' m k st =
     generate_and_store demo_services k (demo_details k) ''sk-demo'' m st"
  by (simp add: batch_jira_item_def demo_get_ticket_details)

lemma demo_batch_jira_item_unknown:
  "batch_jira_item demo_services demo_jira api m ''PROJ-404'' st
     = st\<lparr>errors := errors st @ [TicketDetailsError]\<rparr>"
  by (simp add: batch_jira_item_def demo_get_ticket_details_unknown)

lemma demo_batch_lines:
  "py_split newline (py_strip demo_batch) =
     [''A-1 | Add login | User logs in'', ''A-2 | Export | CSV file'', ''just a note'',
      ''A-3 | Search | By name'', ''A-4 | Logout | Ends session'',
      ''A-5 | Reset | Password mail'']"
  by (simp add: demo_batch_def py_strip_def is_space_def whitespace_def newline_def)


lemma demo_manual_lines:
  "batch_manual_line sv api m ''A-1 | Add login | User logs in'' st
     = generate_and_store sv ''A-1'' (manual_ticket_of (py_split CHR ''|'' ''A-1 | Add login | User logs in'')) api m st"
  "batch_manual_line sv api m ''A-2 | Export | CSV file'' st
     = generate_and_store sv ''A-2'' (manual_ticket_of (py_split CHR ''|'' ''A-2 | Export | CSV file'')) api m st"
  "batch_manual_line sv api m ''just a note'' st = st"
  "batch_manual_line sv api m ''A-3 | Search | By name'' st
     = generate_and_store sv ''A-3'' (manual_ticket_of (py_split CHR ''|'' ''A-3 | Search | By name'')) api m st"
  "batch_manual_line sv api m ''A-4 | Logout | Ends session'' st
     = generate_and_store sv ''A-4'' (manual_ticket_of (py_split CHR ''|'' ''A-4 | Logout | Ends session'')) api m st"
  "batch_manual_line sv api m ''A-5 | Reset | Password mail'' st
     = generate_and_store sv ''A-5'' (manual_ticket_of (py_split CHR ''|'' ''A-5 | Reset | Password mail'')) api m st"
  by (simp_all add: batch_manual_line_def Let_def py_strip_def is_space_def whitespace_def)


section \<open>The free-text batch\<close>

text \<open>
  C3. In the free-text batch every line is split at the vertical bars. The calls of
  \<open>generate_test_cases\<close> made by the loop are, in order, one for each line with at least
  three parts and none for the others: a line with fewer than three parts leaves the
  session as it is, and the loop goes on. With a key and a text that are not empty, the
  button runs this loop over the lines of the text.
\<close>

theorem malformed_lines_skipped:
  "attempts (batch_manual_loop sv api m ls st)
     = attempts st @ map (\<lambda>l. manual_ticket_of (py_split CHR ''|'' l))
                       (filter (\<lambda>l. 3 \<le> length (py_split CHR ''|'' l)) ls)
   \<and> length (attempts (batch_manual_loop sv api m ls st))
     = length (attempts st) + length (filter (\<lambda>l. 3 \<le> length (py_split CHR ''|'' l)) ls)
   \<and> (\<forall>l. length (py_split CHR ''|'' l) < 3 \<longrightarrow> batch_manual_line sv api m l st = st)
   \<and> (api \<noteq> [] \<and> batch_descriptions \<noteq> [] \<longrightarrow>
        tab4_manual sv api m batch_descriptions st
          = batch_manual_loop sv api m (py_split newline (py_strip batch_descriptions)) st)"
  by (simp add: batch_manual_loop_attempts batch_manual_line_def tab4_manual_def)

text \<open>Six lines, one of them without a separator: five calls.\<close>

theorem malformed_lines_skipped_witness:
  "length (py_split newline (py_strip demo_batch)) = 6
   \<and> length (filter (\<lambda>l. 3 \<le> length (py_split CHR ''|'' l))
               (py_split newline (py_strip demo_batch))) = 5
   \<and> length (py_split CHR ''|'' ''just a note'') = 1
   \<and> length (attempts (tab4_manual demo_services ''sk-demo'' ''gpt-4'' demo_batch demo_session)) = 5"
proof -
  have ne: "''sk-demo'' \<noteq> [] \<and> demo_batch \<noteq> []"
    by (simp add: demo_batch_def)
  have five: "length (filter (\<lambda>l. 3 \<le> length (py_split CHR ''|'' l))
               (py_split newline (py_strip demo_batch))) = 5"
    by (simp add: demo_batch_lines)
  from malformed_lines_skipped
         [of demo_services "''sk-demo''" "''gpt-4''" "py_split newline (py_strip demo_batch)"
             demo_session demo_batch] ne five
  have "length (attempts (tab4_manual demo_services ''sk-demo'' ''gpt-4'' demo_batch demo_session)) = 5"
    by (simp add: demo_session_def)
  with five show ?thesis
    by (simp add: demo_batch_lines)
qed

text \<open>
  C9. Of a line with three parts or more, only the first three are used: the ticket has
  their stripped texts as key, summary and description, and the line is treated exactly as
  the line cut before its third vertical bar is. The description holds no vertical bar, so
  a description typed with one is cut there.
\<close>

theorem batch_line_uses_three_parts:
  assumes "py_split CHR ''|'' line = p0 # p1 # p2 # rest"
  shows "batch_manual_line sv api m line st =
           generate_and_store sv (py_strip p0)
             \<lparr>key = py_strip p0, summary = py_strip p1, description = py_strip p2,
              status = None, issue_type = ''Story'', priority = ''Medium'', components = [],
              created = None, updated = None, acceptance_criteria = ''Not provided''\<rparr>
             api m st
         \<and> batch_manual_line sv api m line st
             = batch_manual_line sv api m (p0 @ ''|'' @ p1 @ ''|'' @ p2) st
         \<and> CHR ''|'' \<notin> set (py_strip p2)
         \<and> (rest \<noteq> [] \<longrightarrow> line = p0 @ ''|'' @ p1 @ ''|'' @ p2 @ ''|'' @ py_join ''|'' rest)"
proof -
  have a: "batch_manual_line sv api m line st =
           generate_and_store sv (py_strip p0)
             \<lparr>key = py_strip p0, summary = py_strip p1, description = py_strip p2,
              status = None, issue_type = ''Story'', priority = ''Medium'', components = [],
              created = None, updated = None, acceptance_criteria = ''Not provided''\<rparr>
             api m st"
    using assms by (simp add: batch_manual_line_def manual_ticket_of_def)
  have "py_split CHR ''|'' (p0 @ ''|'' @ p1 @ ''|'' @ p2) = [p0, p1, p2]"
    using py_split_three(1) [OF assms] by simp
  then have b: "batch_manual_line sv api m (p0 @ ''|'' @ p1 @ ''|'' @ p2) st =
           generate_and_store sv (py_strip p0)
             \<lparr>key = py_strip p0, summary = py_strip p1, description = py_strip p2,
              status = None, issue_type = ''Story'', priority = ''Medium'', components = [],
              created = None, updated = None, acceptance_criteria = ''Not provided''\<rparr>
             api m st"
    by (simp add: batch_manual_line_def manual_ticket_of_def)
  have c: "CHR ''|'' \<notin> set (py_strip p2)"
    using py_split_three(2) [OF assms] py_strip_subset [of p2] by blast
  have d: "rest \<noteq> [] \<longrightarrow> line = p0 @ ''|'' @ p1 @ ''|'' @ p2 @ ''|'' @ py_join ''|'' rest"
    using py_split_three(4) [OF assms] by simp
  from a b c d show ?thesis by simp
qed

text \<open>
  A line with a fourth part: the description stops before the third bar. Stripping takes
  away the no-break space and the next-line control as well as the blank.
\<close>

theorem batch_line_uses_three_parts_witness:
  "py_split CHR ''|'' ''A-2 | Export | CSV | with header''
     = [''A-2 '', '' Export '', '' CSV '', '' with header'']
   \<and> attempts (batch_manual_line demo_services ''sk-demo'' ''gpt-4''
                 ''A-2 | Export | CSV | with header'' demo_session)
     = [\<lparr>key = ''A-2'', summary = ''Export'', description = ''CSV'',
         status = None, issue_type = ''Story'', priority = ''Medium'', components = [],
         created = None, updated = None, acceptance_criteria = ''Not provided''\<rparr>]
   \<and> batch_manual_line demo_services ''sk-demo'' ''gpt-4''
         ''A-2 | Export | CSV | with header'' demo_session
     = batch_manual_line demo_services ''sk-demo'' ''gpt-4'' ''A-2 | Export | CSV '' demo_session
   \<and> py_strip ([CHR 0xA0] @ ''A-2'' @ [CHR 0xA0, CHR 0x85, CHR 0x20]) = ''A-2''"
proof -
  have parts: "py_split CHR ''|'' ''A-2 | Export | CSV | with header''
     = ''A-2 '' # '' Export '' # '' CSV '' # [ '' with header'']"
    by simp
  have strip: "py_strip ''A-2 '' = ''A-2''" "py_strip '' Export '' = ''Export''"
      "py_strip '' CSV '' = ''CSV''"
    by (simp_all add: py_strip_def is_space_def whitespace_def)
  note three = batch_line_uses_three_parts
      [OF parts, of demo_services "''sk-demo''" "''gpt-4''" demo_session]
  from three have "attempts (batch_manual_line demo_services ''sk-demo'' ''gpt-4''
                 ''A-2 | Export | CSV | with header'' demo_session)
     = attempts demo_session @
       [\<lparr>key = ''A-2'', summary = ''Export'', description = ''CSV'',
         status = None, issue_type = ''Story'', priority = ''Medium'', components = [],
         created = None, updated = None, acceptance_criteria = ''Not provided''\<rparr>]"
    by (simp only: strip generate_and_store_attempts)
  then have att: "attempts (batch_manual_line demo_services ''sk-demo'' ''gpt-4''
                 ''A-2 | Export | CSV | with header'' demo_session)
     = [\<lparr>key = ''A-2'', summary = ''Export'', description = ''CSV'',
         status = None, issue_type = ''Story'', priority = ''Medium'', components = [],
         created = None, updated = None, acceptance_criteria = ''Not provided''\<rparr>]"
    by (simp add: demo_session_def)
  from three have cut: "batch_manual_line demo_services ''sk-demo'' ''gpt-4''
         ''A-2 | Export | CSV | with header'' demo_session
     = batch_manual_line demo_services ''sk-demo'' ''gpt-4'' (''A-2 '' @ ''|'' @ '' Export '' @ ''|'' @ '' CSV '') demo_session"
    by (rule conjunct1 [OF conjunct2])
  have nbsp: "py_strip ([CHR 0xA0] @ ''A-2'' @ [CHR 0xA0, CHR 0x85, CHR 0x20]) = ''A-2''"
    by (simp add: py_strip_def is_space_def whitespace_def)
  from parts att cut nbsp show ?thesis by simp
qed


section \<open>Batches go on after a failure\<close>

text \<open>
  C4, as stated, fails where it says that a failure is recorded: a completion that comes
  back empty is a failed generation, and the loop leaves no trace of it. Here the first of
  two tickets gets an empty completion: it is called, no error is shown, nothing is stored
  for it, and the second ticket is stored.
\<close>

theorem silent_generation_failure_unrecorded:
  "fst (generate_test_cases demo_services (demo_details ''P-1'') ''sk-demo'' ''gpt-4''
          (demo_session\<lparr>world := 5\<rparr>)) = Some []
   \<and> map key (attempts (batch_jira_loop demo_services demo_jira ''sk-demo'' ''gpt-4''
                 [''P-1'', ''P-2''] (demo_session\<lparr>world := 5\<rparr>)))
      = [''P-1'', ''P-2'']
   \<and> errors (batch_jira_loop demo_services demo_jira ''sk-demo'' ''gpt-4''
               [''P-1'', ''P-2''] (demo_session\<lparr>world := 5\<rparr>)) = []
   \<and> generated_test_cases (batch_jira_loop demo_services demo_jira ''sk-demo'' ''gpt-4''
               [''P-1'', ''P-2''] (demo_session\<lparr>world := 5\<rparr>)) ''P-1'' = None
   \<and> generated_test_cases (batch_jira_loop demo_services demo_jira ''sk-demo'' ''gpt-4''
               [''P-1'', ''P-2''] (demo_session\<lparr>world := 5\<rparr>)) ''P-2'' = Some ''TC-01''"
proof -
  have "fst (generate_test_cases demo_services (demo_details ''P-1'') ''sk-demo'' ''gpt-4''
          (demo_session\<lparr>world := 5\<rparr>)) = Some []"
    by (simp add: generate_test_cases_def Let_def demo_services_def demo_session_def)
  moreover have "batch_jira_loop demo_services demo_jira ''sk-demo'' ''gpt-4''
               [''P-1'', ''P-2''] (demo_session\<lparr>world := 5\<rparr>)
      = \<lparr>generated_test_cases = [''P-2'' \<mapsto> ''TC-01''], errors = [],
         attempts = map demo_details [''P-1'', ''P-2''], world = 7\<rparr>"
    by (simp add: demo_batch_jira_item demo_generate_and_store demo_session_def)
  ultimately show ?thesis
    by (simp add: demo_details_def)
qed

text \<open>
  C4, amended. Both batch loops treat the tickets in the order given and never stop early:
  whatever happens at one ticket, the tickets after it are treated from the session it
  leaves, and each of them is stored when its generation gives a text. A ticket of the
  tracker batch whose details cannot be fetched shows one error, makes no generation call
  and changes no stored text. Otherwise the ticket makes one generation call, and so does
  every line of the free-text batch with at least three parts. A call that lacks the key,
  cannot build the client or meets a raising service shows one error and changes no stored
  text; a call whose completion is \<open>None\<close> or empty changes no stored text and shows
  nothing, so that this failure is recorded nowhere; a call that gives a text shows nothing
  and has the text stored under the key of the ticket. A ticket changes no entry but its
  own, and its entry stays as it is while the later tickets have other keys.
\<close>

theorem batch_never_aborts:
  "batch_jira_loop sv jira api m (xs @ k # ys) st
     = batch_jira_loop sv jira api m ys
         (batch_jira_item sv jira api m k (batch_jira_loop sv jira api m xs st))
   \<and> batch_manual_loop sv api m (ls @ l # ms) st
     = batch_manual_loop sv api m ms
         (batch_manual_line sv api m l (batch_manual_loop sv api m ls st))
   \<and> (fst (get_ticket_details sv jira k st) = None \<longrightarrow>
        generated_test_cases (batch_jira_item sv jira api m k st) = generated_test_cases st
        \<and> attempts (batch_jira_item sv jira api m k st) = attempts st
        \<and> errors (batch_jira_item sv jira api m k st) = errors st @ [TicketDetailsError])
   \<and> (\<forall>d st1. get_ticket_details sv jira k st = (Some d, st1) \<longrightarrow>
        batch_jira_item sv jira api m k st = generate_and_store sv k d api m st1
        \<and> generated_test_cases st1 = generated_test_cases st
        \<and> attempts st1 = attempts st
        \<and> errors st1 = errors st)
   \<and> (3 \<le> length (py_split CHR ''|'' l) \<longrightarrow>
        batch_manual_line sv api m l st
          = generate_and_store sv (py_strip (py_split CHR ''|'' l ! 0))
              (manual_ticket_of (py_split CHR ''|'' l)) api m st)
   \<and> attempts (generate_and_store sv k d api m s) = attempts s @ [d]
   \<and> (api = [] \<longrightarrow>
        errors (generate_and_store sv k d api m s) = errors s @ [ApiKeyRequired]
        \<and> generated_test_cases (generate_and_store sv k d api m s) = generated_test_cases s)
   \<and> (api \<noteq> [] \<and> \<not> openai_client sv api \<longrightarrow>
        errors (generate_and_store sv k d api m s) = errors s @ [ClientInitError]
        \<and> generated_test_cases (generate_and_store sv k d api m s) = generated_test_cases s)
   \<and> (api \<noteq> [] \<and> openai_client sv api
        \<and> fst (chat_create sv (world s) m system_content (prompt d)) = Raised \<longrightarrow>
        errors (generate_and_store sv k d api m s) = errors s @ [GenerationError]
        \<and> generated_test_cases (generate_and_store sv k d api m s) = generated_test_cases s)
   \<and> (api \<noteq> [] \<and> openai_client sv api
        \<and> (fst (chat_create sv (world s) m system_content (prompt d)) = Returned None
           \<or> fst (chat_create sv (world s) m system_content (prompt d)) = Returned (Some []))
        \<longrightarrow>
        errors (generate_and_store sv k d api m s) = errors s
        \<and> generated_test_cases (generate_and_store sv k d api m s) = generated_test_cases s)
   \<and> (\<forall>t. api \<noteq> [] \<and> openai_client sv api
        \<and> fst (chat_create sv (world s) m system_content (prompt d)) = Returned (Some t)
        \<and> t \<noteq> [] \<longrightarrow>
        errors (generate_and_store sv k d api m s) = errors s
        \<and> generated_test_cases (generate_and_store sv k d api m s)
           = (generated_test_cases s)(k \<mapsto> t))
   \<and> (\<forall>k'. k' \<noteq> k \<longrightarrow>
        generated_test_cases (batch_jira_item sv jira api m k st) k' = generated_test_cases st k')
   \<and> (k \<notin> set ys \<longrightarrow>
        generated_test_cases (batch_jira_loop sv jira api m ys st) k = generated_test_cases st k)
   \<and> (\<forall>k'. k' \<noteq> py_strip (py_split CHR ''|'' l ! 0) \<longrightarrow>
        generated_test_cases (batch_manual_line sv api m l st) k' = generated_test_cases st k')"
proof -
  have a: "batch_jira_loop sv jira api m (xs @ k # ys) st
     = batch_jira_loop sv jira api m ys
         (batch_jira_item sv jira api m k (batch_jira_loop sv jira api m xs st))"
    by (simp add: batch_jira_loop_append)
  have b: "batch_manual_loop sv api m (ls @ l # ms) st
     = batch_manual_loop sv api m ms
         (batch_manual_line sv api m l (batch_manual_loop sv api m ls st))"
    by (simp add: batch_manual_loop_append)
  have c: "generated_test_cases (batch_jira_item sv jira api m k st) = generated_test_cases st
        \<and> attempts (batch_jira_item sv jira api m k st) = attempts st
        \<and> errors (batch_jira_item sv jira api m k st) = errors st @ [TicketDetailsError]"
    if fails: "fst (get_ticket_details sv jira k st) = None"
  proof -
    from fails obtain st1 where g: "get_ticket_details sv jira k st = (None, st1)"
      by (cases "get_ticket_details sv jira k st") simp
    then have "batch_jira_item sv jira api m k st = st1"
      by (simp add: batch_jira_item_def)
    with g show ?thesis
      by (simp add: get_ticket_details_session get_ticket_details_error)
  qed
  have d: "batch_jira_item sv jira api m k st = generate_and_store sv k d api m st1
        \<and> generated_test_cases st1 = generated_test_cases st
        \<and> attempts st1 = attempts st
        \<and> errors st1 = errors st"
    if g: "get_ticket_details sv jira k st = (Some d, st1)" for d st1
    using g by (simp add: batch_jira_item_def get_ticket_details_session
        get_ticket_details_quiet)
  have e: "3 \<le> length (py_split CHR ''|'' l) \<longrightarrow>
        batch_manual_line sv api m l st
          = generate_and_store sv (py_strip (py_split CHR ''|'' l ! 0))
              (manual_ticket_of (py_split CHR ''|'' l)) api m st"
    by (simp add: batch_manual_line_def Let_def)
  note o = generate_and_store_outcomes
      [where sv = sv and k = k and d = d and api = api and m = m and s = s]
  have f: "\<forall>k'. k' \<noteq> k \<longrightarrow>
        generated_test_cases (batch_jira_item sv jira api m k st) k' = generated_test_cases st k'"
    by (simp add: batch_jira_item_other)
  have g: "k \<notin> set ys \<longrightarrow>
        generated_test_cases (batch_jira_loop sv jira api m ys st) k = generated_test_cases st k"
    by (simp add: batch_jira_loop_other)
  have h: "\<forall>k'. k' \<noteq> py_strip (py_split CHR ''|'' l ! 0) \<longrightarrow>
        generated_test_cases (batch_manual_line sv api m l st) k' = generated_test_cases st k'"
    by (simp add: batch_manual_line_other)
  from a b c d e o f g h show ?thesis by blast
qed

text \<open>
  Five tickets, the generation failing for the third: the fourth and the fifth are called
  and stored, the third is not stored and its error is shown. A batch whose second ticket
  cannot be fetched: the third is still treated. The free-text batch of six lines: the
  third generation fails, the two lines after it are stored. And a call whose completion
  comes back empty: no error, nothing stored.
\<close>

theorem batch_never_aborts_witness:
  "map (generated_test_cases
          (batch_jira_loop demo_services demo_jira ''sk-demo'' ''gpt-4''
             [''P-1'', ''P-2'', ''P-3'', ''P-4'', ''P-5''] demo_session))
       [''P-1'', ''P-2'', ''P-3'', ''P-4'', ''P-5'']
     = [Some ''TC-01'', Some ''TC-01'', None, Some ''TC-01'', Some ''TC-01'']
   \<and> errors (batch_jira_loop demo_services demo_jira ''sk-demo'' ''gpt-4''
               [''P-1'', ''P-2'', ''P-3'', ''P-4'', ''P-5''] demo_session)
     = [GenerationError]
   \<and> map key (attempts (batch_jira_loop demo_services demo_jira ''sk-demo'' ''gpt-4''
               [''P-1'', ''P-2'', ''P-3'', ''P-4'', ''P-5''] demo_session))
     = [''P-1'', ''P-2'', ''P-3'', ''P-4'', ''P-5'']
   \<and> map (generated_test_cases
          (batch_jira_loop demo_services demo_jira ''sk-demo'' ''gpt-4''
             [''P-1'', ''PROJ-404'', ''P-2''] demo_session))
       [''P-1'', ''PROJ-404'', ''P-2'']
     = [Some ''TC-01'', None, Some ''TC-01'']
   \<and> errors (batch_jira_loop demo_services demo_jira ''sk-demo'' ''gpt-4''
               [''P-1'', ''PROJ-404'', ''P-2''] demo_session)
     = [TicketDetailsError]
   \<and> map (generated_test_cases
          (tab4_manual demo_services ''sk-demo'' ''gpt-4'' demo_batch demo_session))
       [''A-1'', ''A-2'', ''A-3'', ''A-4'', ''A-5'']
     = [Some ''TC-01'', Some ''TC-01'', None, Some ''TC-01'', Some ''TC-01'']
   \<and> errors (tab4_manual demo_services ''sk-demo'' ''gpt-4'' demo_batch demo_session)
     = [GenerationError]
   \<and> errors (generate_and_store demo_services ''P-1'' (demo_details ''P-1'') ''sk-demo''
               ''gpt-4'' (demo_session\<lparr>world := 5\<rparr>)) = []
   \<and> generated_test_cases
        (generate_and_store demo_services ''P-1'' (demo_details ''P-1'') ''sk-demo''
           ''gpt-4'' (demo_session\<lparr>world := 5\<rparr>)) ''P-1'' = None"
proof -
  note silent = batch_never_aborts
      [where sv = demo_services and api = "''sk-demo''" and m = "''gpt-4''" and k = "''P-1''"
         and d = "demo_details ''P-1''" and s = "demo_session\<lparr>world := 5\<rparr>"]
  have empty: "''sk-demo'' \<noteq> [] \<and> openai_client demo_services ''sk-demo''
      \<and> fst (chat_create demo_services (world (demo_session\<lparr>world := 5\<rparr>)) ''gpt-4''
               system_content (prompt (demo_details ''P-1''))) = Returned (Some [])"
    by (simp add: demo_services_def)
  from silent empty
  have "errors (generate_and_store demo_services ''P-1'' (demo_details ''P-1'') ''sk-demo''
               ''gpt-4'' (demo_session\<lparr>world := 5\<rparr>)) = errors (demo_session\<lparr>world := 5\<rparr>)
      \<and> generated_test_cases
        (generate_and_store demo_services ''P-1'' (demo_details ''P-1'') ''sk-demo''
           ''gpt-4'' (demo_session\<lparr>world := 5\<rparr>))
        = generated_test_cases (demo_session\<lparr>world := 5\<rparr>)"
    by blast
  then have q: "errors (generate_and_store demo_services ''P-1'' (demo_details ''P-1'') ''sk-demo''
               ''gpt-4'' (demo_session\<lparr>world := 5\<rparr>)) = []"
      "generated_test_cases
        (generate_and_store demo_services ''P-1'' (demo_details ''P-1'') ''sk-demo''
           ''gpt-4'' (demo_session\<lparr>world := 5\<rparr>)) ''P-1'' = None"
    by (simp_all add: demo_session_def)
  note five = batch_never_aborts
      [of demo_services demo_jira "''sk-demo''" "''gpt-4''" "[''P-1'', ''P-2'']" "''P-3''"
          "[''P-4'', ''P-5'']" demo_session]
  note three = batch_never_aborts
      [of demo_services demo_jira "''sk-demo''" "''gpt-4''" "[''P-1'']" "''PROJ-404''"
          "[''P-2'']" demo_session]
  note six = batch_never_aborts
      [of demo_services _ "''sk-demo''" "''gpt-4''" _ _ _ demo_session
          "[''A-1 | Add login | User logs in'', ''A-2 | Export | CSV file'', ''just a note'']"
          "''A-3 | Search | By name''"
          "[''A-4 | Logout | Ends session'', ''A-5 | Reset | Password mail'']"]
  from five have "batch_jira_loop demo_services demo_jira ''sk-demo'' ''gpt-4''
             ([''P-1'', ''P-2''] @ ''P-3'' # [''P-4'', ''P-5'']) demo_session
      = batch_jira_loop demo_services demo_jira ''sk-demo'' ''gpt-4'' [''P-4'', ''P-5'']
          (batch_jira_item demo_services demo_jira ''sk-demo'' ''gpt-4'' ''P-3''
             (batch_jira_loop demo_services demo_jira ''sk-demo'' ''gpt-4''
                [''P-1'', ''P-2''] demo_session))"
    by (rule conjunct1)
  then have a: "batch_jira_loop demo_services demo_jira ''sk-demo'' ''gpt-4''
             [''P-1'', ''P-2'', ''P-3'', ''P-4'', ''P-5''] demo_session
      = \<lparr>generated_test_cases =
            [''P-1'' \<mapsto> ''TC-01'', ''P-2'' \<mapsto> ''TC-01'', ''P-4'' \<mapsto> ''TC-01'',
             ''P-5'' \<mapsto> ''TC-01''],
         errors = [GenerationError],
         attempts = map demo_details [''P-1'', ''P-2'', ''P-3'', ''P-4'', ''P-5''],
         world = 5\<rparr>"
    by (simp add: demo_batch_jira_item demo_generate_and_store demo_session_def)
  from three have "batch_jira_loop demo_services demo_jira ''sk-demo'' ''gpt-4''
             ([''P-1''] @ ''PROJ-404'' # [''P-2'']) demo_session
      = batch_jira_loop demo_services demo_jira ''sk-demo'' ''gpt-4'' [''P-2'']
          (batch_jira_item demo_services demo_jira ''sk-demo'' ''gpt-4'' ''PROJ-404''
             (batch_jira_loop demo_services demo_jira ''sk-demo'' ''gpt-4''
                [''P-1''] demo_session))"
    by (rule conjunct1)
  then have b: "batch_jira_loop demo_services demo_jira ''sk-demo'' ''gpt-4''
             [''P-1'', ''PROJ-404'', ''P-2''] demo_session
      = \<lparr>generated_test_cases = [''P-1'' \<mapsto> ''TC-01'', ''P-2'' \<mapsto> ''TC-01''],
         errors = [TicketDetailsError],
         attempts = map demo_details [''P-1'', ''P-2''],
         world = 2\<rparr>"
    by (simp add: demo_batch_jira_item demo_batch_jira_item_unknown demo_generate_and_store
        demo_session_def)
  from six have "batch_manual_loop demo_services ''sk-demo'' ''gpt-4''
         ([''A-1 | Add login | User logs in'', ''A-2 | Export | CSV file'', ''just a note'']
          @ ''A-3 | Search | By name''
          # [''A-4 | Logout | Ends session'', ''A-5 | Reset | Password mail'']) demo_session
      = batch_manual_loop demo_services ''sk-demo'' ''gpt-4''
          [''A-4 | Logout | Ends session'', ''A-5 | Reset | Password mail'']
          (batch_manual_line demo_services ''sk-demo'' ''gpt-4'' ''A-3 | Search | By name''
             (batch_manual_loop demo_services ''sk-demo'' ''gpt-4''
                [''A-1 | Add login | User logs in'', ''A-2 | Export | CSV file'',
                 ''just a note''] demo_session))"
    by (rule conjunct1 [OF conjunct2])
  then have "batch_manual_loop demo_services ''sk-demo'' ''gpt-4''
         (py_split newline (py_strip demo_batch)) demo_session
      = \<lparr>generated_test_cases =
            [''A-1'' \<mapsto> ''TC-01'', ''A-2'' \<mapsto> ''TC-01'', ''A-4'' \<mapsto> ''TC-01'',
             ''A-5'' \<mapsto> ''TC-01''],
         errors = [GenerationError],
         attempts = map (\<lambda>l. manual_ticket_of (py_split CHR ''|'' l))
           [''A-1 | Add login | User logs in'', ''A-2 | Export | CSV file'',
            ''A-3 | Search | By name'', ''A-4 | Logout | Ends session'',
            ''A-5 | Reset | Password mail''],
         world = 5\<rparr>"
    unfolding demo_batch_lines
    by (simp add: demo_manual_lines demo_generate_and_store demo_session_def)
  then have c: "tab4_manual demo_services ''sk-demo'' ''gpt-4'' demo_batch demo_session
      = \<lparr>generated_test_cases =
            [''A-1'' \<mapsto> ''TC-01'', ''A-2'' \<mapsto> ''TC-01'', ''A-4'' \<mapsto> ''TC-01'',
             ''A-5'' \<mapsto> ''TC-01''],
         errors = [GenerationError],
         attempts = map (\<lambda>l. manual_ticket_of (py_split CHR ''|'' l))
           [''A-1 | Add login | User logs in'', ''A-2 | Export | CSV file'',
            ''A-3 | Search | By name'', ''A-4 | Logout | Ends session'',
            ''A-5 | Reset | Password mail''],
         world = 5\<rparr>"
    by (simp add: tab4_manual_def demo_batch_def)
  show ?thesis
    unfolding a b c q by (simp add: demo_details_def)
qed


section \<open>When the stored texts change\<close>

text \<open>
  C8. A generation call that fails (no key, the client cannot be built, or the service
  raises) returns \<open>None\<close>, and then the stored texts are exactly what they were, earlier
  text under the same key included. A call that returns a text that is not empty has this
  text stored under the ticket key, in place of what was there. The stored texts change in
  no other way: where the manual form, the single tracker ticket or the call itself leaves
  them different, a generation call has returned a text that is not empty, and this text
  is the new entry of the key. (A call that returns the empty text counts as failed;
  see C10.)
\<close>

theorem store_written_on_success_only:
  "(api = [] \<or> \<not> openai_client sv api
      \<or> fst (chat_create sv (world st) m system_content (prompt td)) = Raised
     \<longrightarrow> fst (generate_test_cases sv td api m st) = None)
   \<and> (fst (generate_test_cases sv td api m st) = None \<longrightarrow>
        generated_test_cases (generate_and_store sv k td api m st) = generated_test_cases st)
   \<and> (\<forall>t. fst (generate_test_cases sv td api m st) = Some t \<and> t \<noteq> [] \<longrightarrow>
        generated_test_cases (generate_and_store sv k td api m st)
          = (generated_test_cases st)(k \<mapsto> t))
   \<and> (generated_test_cases (generate_and_store sv k td api m st) \<noteq> generated_test_cases st
        \<longrightarrow> (\<exists>t. t \<noteq> [] \<and> fst (generate_test_cases sv td api m st) = Some t))
   \<and> (generated_test_cases (tab3_manual sv td api m st) \<noteq> generated_test_cases st \<longrightarrow>
        (\<exists>t. t \<noteq> [] \<and> fst (generate_test_cases sv td api m st) = Some t
             \<and> generated_test_cases (tab3_manual sv td api m st)
               = (generated_test_cases st)(key td \<mapsto> t)))
   \<and> (generated_test_cases (tab3_jira sv url email token api m k st) \<noteq> generated_test_cases st
        \<longrightarrow> (\<exists>d st2 t. t \<noteq> [] \<and> fst (generate_test_cases sv d api m st2) = Some t
             \<and> generated_test_cases (tab3_jira sv url email token api m k st)
               = (generated_test_cases st)(k \<mapsto> t)))"
proof -
  have a: "api = [] \<or> \<not> openai_client sv api
      \<or> fst (chat_create sv (world st) m system_content (prompt td)) = Raised
     \<longrightarrow> fst (generate_test_cases sv td api m st) = None"
    using generate_test_cases_failure [of api sv st m td] by blast
  have b: "fst (generate_test_cases sv td api m st) = None \<longrightarrow>
        generated_test_cases (generate_and_store sv k td api m st) = generated_test_cases st"
    by (simp add: generate_and_store_store)
  have c: "\<forall>t. fst (generate_test_cases sv td api m st) = Some t \<and> t \<noteq> [] \<longrightarrow>
        generated_test_cases (generate_and_store sv k td api m st)
          = (generated_test_cases st)(k \<mapsto> t)"
    by (simp add: generate_and_store_store)
  have only: "\<exists>t. t \<noteq> [] \<and> fst (generate_test_cases sv d api m s) = Some t
        \<and> generated_test_cases (generate_and_store sv k' d api m s)
           = (generated_test_cases s)(k' \<mapsto> t)"
    if "generated_test_cases (generate_and_store sv k' d api m s) \<noteq> generated_test_cases s"
    for k' d s
    using that by (auto simp: generate_and_store_store split: option.splits if_splits)
  have d: "generated_test_cases (generate_and_store sv k td api m st) \<noteq> generated_test_cases st
        \<longrightarrow> (\<exists>t. t \<noteq> [] \<and> fst (generate_test_cases sv td api m st) = Some t)"
    using only [of k td st] by blast
  have e: "generated_test_cases (tab3_manual sv td api m st) \<noteq> generated_test_cases st \<longrightarrow>
        (\<exists>t. t \<noteq> [] \<and> fst (generate_test_cases sv td api m st) = Some t
             \<and> generated_test_cases (tab3_manual sv td api m st)
               = (generated_test_cases st)(key td \<mapsto> t))"
    using only [of "key td" td st] by (auto simp: tab3_manual_store split: if_splits)
  have f: "generated_test_cases (tab3_jira sv url email token api m k st) \<noteq> generated_test_cases st
        \<longrightarrow> (\<exists>d st2 t. t \<noteq> [] \<and> fst (generate_test_cases sv d api m st2) = Some t
             \<and> generated_test_cases (tab3_jira sv url email token api m k st)
               = (generated_test_cases st)(k \<mapsto> t))"
  proof
    assume changed: "generated_test_cases (tab3_jira sv url email token api m k st)
        \<noteq> generated_test_cases st"
    with tab3_jira_store [of sv url email token api m k st]
    obtain d st2 where same: "generated_test_cases st2 = generated_test_cases st"
      and eq: "generated_test_cases (tab3_jira sv url email token api m k st)
           = generated_test_cases (generate_and_store sv k d api m st2)"
      by blast
    from changed eq same
    have "generated_test_cases (generate_and_store sv k d api m st2) \<noteq> generated_test_cases st2"
      by simp
    from only [OF this] obtain t where "t \<noteq> []"
        "fst (generate_test_cases sv d api m st2) = Some t"
        "generated_test_cases (generate_and_store sv k d api m st2)
           = (generated_test_cases st2)(k \<mapsto> t)"
      by blast
    with eq same show "\<exists>d st2 t. t \<noteq> [] \<and> fst (generate_test_cases sv d api m st2) = Some t
             \<and> generated_test_cases (tab3_jira sv url email token api m k st)
               = (generated_test_cases st)(k \<mapsto> t)"
      by auto
  qed
  from a b c d e f show ?thesis by (intro conjI)
qed

text \<open>
  With earlier text stored for \<open>PROJ-1\<close>: a raising service and a missing key leave it, a
  successful call replaces it.
\<close>

theorem store_written_on_success_only_witness:
  "fst (chat_create demo_services (world (stored_session 2)) ''gpt-4'' system_content
         (prompt login_ticket)) = Raised
   \<and> generated_test_cases
        (generate_and_store demo_services ''PROJ-1'' login_ticket ''sk-demo'' ''gpt-4''
           (stored_session 2)) ''PROJ-1''
      = Some ''TC-00 earlier run''
   \<and> generated_test_cases
        (generate_and_store demo_services ''PROJ-1'' login_ticket [] ''gpt-4''
           (stored_session 0)) ''PROJ-1''
      = Some ''TC-00 earlier run''
   \<and> fst (generate_test_cases demo_services login_ticket ''sk-demo'' ''gpt-4'' (stored_session 0))
      = Some ''TC-01''
   \<and> generated_test_cases
        (generate_and_store demo_services ''PROJ-1'' login_ticket ''sk-demo'' ''gpt-4''
           (stored_session 0)) ''PROJ-1''
      = Some ''TC-01''"
proof -
  have raised: "fst (chat_create demo_services (world (stored_session 2)) ''gpt-4''
      system_content (prompt login_ticket)) = Raised"
    by (simp add: demo_services_def stored_session_def)
  have ok: "fst (generate_test_cases demo_services login_ticket ''sk-demo'' ''gpt-4''
      (stored_session 0)) = Some ''TC-01''"
    by (simp add: generate_test_cases_def Let_def demo_services_def stored_session_def)
  note at2 = store_written_on_success_only
      [of "''sk-demo''" demo_services "stored_session 2" "''gpt-4''" login_ticket "''PROJ-1''"]
  note nokey = store_written_on_success_only
      [of "[]" demo_services "stored_session 0" "''gpt-4''" login_ticket "''PROJ-1''"]
  note at0 = store_written_on_success_only
      [of "''sk-demo''" demo_services "stored_session 0" "''gpt-4''" login_ticket "''PROJ-1''"]
  from at2 raised have 1: "generated_test_cases
        (generate_and_store demo_services ''PROJ-1'' login_ticket ''sk-demo'' ''gpt-4''
           (stored_session 2)) = generated_test_cases (stored_session 2)"
    by blast
  from nokey have 2: "generated_test_cases
        (generate_and_store demo_services ''PROJ-1'' login_ticket [] ''gpt-4''
           (stored_session 0)) = generated_test_cases (stored_session 0)"
    by blast
  from at0 ok have 3: "generated_test_cases
        (generate_and_store demo_services ''PROJ-1'' login_ticket ''sk-demo'' ''gpt-4''
           (stored_session 0)) = (generated_test_cases (stored_session 0))(''PROJ-1'' \<mapsto> ''TC-01'')"
    by blast
  from raised ok show ?thesis
    unfolding 1 2 3 by (simp add: stored_session_def)
qed


section \<open>Stored texts are never empty\<close>

lemma texts_nonempty_cong:
  "generated_test_cases st' = generated_test_cases st \<Longrightarrow> texts_nonempty st
   \<Longrightarrow> texts_nonempty st'"
  by (simp add: texts_nonempty_def)

lemma texts_nonempty_generate_and_store:
  "texts_nonempty st \<Longrightarrow> texts_nonempty (generate_and_store sv k td api m st)"
  by (auto simp: texts_nonempty_def generate_and_store_store split: option.splits if_splits)

lemma texts_nonempty_batch_manual_loop:
  "texts_nonempty st \<Longrightarrow> texts_nonempty (batch_manual_loop sv api m ls st)"
  by (induction ls arbitrary: st)
     (simp_all add: batch_manual_line_def Let_def texts_nonempty_generate_and_store)

lemma texts_nonempty_batch_jira_item:
  assumes "texts_nonempty st"
  shows "texts_nonempty (batch_jira_item sv jira api m k st)"
proof -
  obtain r st1 where g: "get_ticket_details sv jira k st = (r, st1)"
    by (cases "get_ticket_details sv jira k st") simp
  then have "texts_nonempty st1"
    using assms get_ticket_details_session(1) texts_nonempty_cong by blast
  with g show ?thesis
    by (cases r) (simp_all add: batch_jira_item_def texts_nonempty_generate_and_store)
qed

lemma texts_nonempty_batch_jira_loop:
  "texts_nonempty st \<Longrightarrow> texts_nonempty (batch_jira_loop sv jira api m ks st)"
  by (induction ks arbitrary: st) (simp_all add: texts_nonempty_batch_jira_item)

lemma texts_nonempty_st_error: "texts_nonempty st \<Longrightarrow> texts_nonempty (st_error e st)"
  by (simp add: texts_nonempty_def st_error_def)

lemma texts_nonempty_tab3_manual:
  "texts_nonempty st \<Longrightarrow> texts_nonempty (tab3_manual sv td api m st)"
  by (simp add: tab3_manual_def texts_nonempty_st_error texts_nonempty_generate_and_store)

lemma texts_nonempty_tab4_manual:
  "texts_nonempty st \<Longrightarrow> texts_nonempty (tab4_manual sv api m text st)"
  by (simp add: tab4_manual_def texts_nonempty_st_error texts_nonempty_batch_manual_loop)

lemma texts_nonempty_tab3_jira:
  assumes "texts_nonempty st"
  shows "texts_nonempty (tab3_jira sv url email token api m k st)"
proof -
  obtain j st1 where c: "connect_to_jira sv url email token st = (j, st1)"
    by (cases "connect_to_jira sv url email token st") simp
  then have s1: "texts_nonempty st1"
    using assms connect_to_jira_session(1) texts_nonempty_cong by blast
  show ?thesis
  proof (cases j)
    case None
    with c s1 assms show ?thesis
      by (simp add: tab3_jira_def texts_nonempty_st_error)
  next
    case (Some jira)
    have "texts_nonempty (batch_jira_item sv jira api m k st1)"
      using s1 by (rule texts_nonempty_batch_jira_item)
    with c Some assms show ?thesis
      by (simp add: tab3_jira_def batch_jira_item_def texts_nonempty_st_error)
  qed
qed

lemma texts_nonempty_tab4_jira:
  assumes "texts_nonempty st"
  shows "texts_nonempty (tab4_jira sv url email token api m ks st)"
proof -
  obtain j st1 where c: "connect_to_jira sv url email token st = (j, st1)"
    by (cases "connect_to_jira sv url email token st") simp
  then have s1: "texts_nonempty st1"
    using assms connect_to_jira_session(1) texts_nonempty_cong by blast
  with c assms show ?thesis
    by (cases j)
       (simp_all add: tab4_jira_def texts_nonempty_st_error texts_nonempty_batch_jira_loop)
qed

lemma reachable_texts_nonempty: "reachable sv st \<Longrightarrow> texts_nonempty st"
proof (induction rule: reachable.induct)
  case (start st)
  then show ?case by (simp add: texts_nonempty_def)
next
  case (outside st st')
  then show ?case using texts_nonempty_cong by blast
next
  case (manual_form st manual_ticket openai_api_key ai_model)
  then show ?case by (simp add: texts_nonempty_tab3_manual)
next
  case (single_ticket st jira_url jira_email jira_api_token openai_api_key ai_model ticket_key)
  then show ?case by (simp add: texts_nonempty_tab3_jira)
next
  case (manual_batch st openai_api_key ai_model batch_descriptions)
  then show ?case by (simp add: texts_nonempty_tab4_manual)
next
  case (tracker_batch st jira_url jira_email jira_api_token openai_api_key ai_model selected_tickets)
  then show ?case by (simp add: texts_nonempty_tab4_jira)
qed

text \<open>
  C10. In every session that can arise, each stored text is a string that is not empty;
  and a generation call that returns the empty string stores nothing: the stored texts
  stay exactly as they were.
\<close>

theorem stored_texts_nonempty:
  assumes "reachable sv st"
  shows "(\<forall>k t. generated_test_cases st k = Some t \<longrightarrow> t \<noteq> [])
         \<and> (\<forall>k td api m. fst (generate_test_cases sv td api m st) = Some [] \<longrightarrow>
               generated_test_cases (generate_and_store sv k td api m st)
                 = generated_test_cases st)"
proof -
  from assms have "texts_nonempty st"
    by (rule reachable_texts_nonempty)
  then have "\<forall>k t. generated_test_cases st k = Some t \<longrightarrow> t \<noteq> []"
    by (simp add: texts_nonempty_def)
  moreover have "\<forall>k td api m. fst (generate_test_cases sv td api m st) = Some [] \<longrightarrow>
               generated_test_cases (generate_and_store sv k td api m st)
                 = generated_test_cases st"
    by (simp add: generate_and_store_store)
  ultimately show ?thesis ..
qed

text \<open>
  After one successful generation, a completion that comes back empty leaves the stored
  text in place.
\<close>

theorem stored_texts_nonempty_witness:
  "reachable demo_services
     ((tab3_manual demo_services login_ticket ''sk-demo'' ''gpt-4'' demo_session)\<lparr>world := 5\<rparr>)
   \<and> generated_test_cases
       ((tab3_manual demo_services login_ticket ''sk-demo'' ''gpt-4'' demo_session)\<lparr>world := 5\<rparr>)
      = [''PROJ-1'' \<mapsto> ''TC-01'']
   \<and> fst (generate_test_cases demo_services login_ticket ''sk-demo'' ''gpt-4''
       ((tab3_manual demo_services login_ticket ''sk-demo'' ''gpt-4'' demo_session)\<lparr>world := 5\<rparr>))
      = Some []
   \<and> generated_test_cases
       (generate_and_store demo_services ''PROJ-1'' login_ticket ''sk-demo'' ''gpt-4''
         ((tab3_manual demo_services login_ticket ''sk-demo'' ''gpt-4'' demo_session)\<lparr>world := 5\<rparr>))
      = [''PROJ-1'' \<mapsto> ''TC-01'']"
proof -
  let ?s = "(tab3_manual demo_services login_ticket ''sk-demo'' ''gpt-4'' demo_session)\<lparr>world := 5\<rparr>"
  have "reachable demo_services demo_session"
    by (rule reachable.start) (simp add: demo_session_def)
  then have "reachable demo_services
      (tab3_manual demo_services login_ticket ''sk-demo'' ''gpt-4'' demo_session)"
    by (rule reachable.manual_form)
  then have r: "reachable demo_services ?s"
    by (rule reachable.outside) simp
  have store: "generated_test_cases ?s = [''PROJ-1'' \<mapsto> ''TC-01'']"
    by (simp add: tab3_manual_def demo_generate_and_store login_ticket_def demo_session_def)
  have empty: "fst (generate_test_cases demo_services login_ticket ''sk-demo'' ''gpt-4'' ?s) = Some []"
    by (simp add: generate_test_cases_def Let_def demo_services_def)
  from stored_texts_nonempty [OF r] empty
  have "generated_test_cases
       (generate_and_store demo_services ''PROJ-1'' login_ticket ''sk-demo'' ''gpt-4'' ?s)
      = generated_test_cases ?s"
    by blast
  with r store empty show ?thesis by simp
qed

end
